theory Spec2Isabelle
  imports Complex_Main
begin

section \<open>Python values, exceptions and the outside world\<close>

text \<open>
  The notebook \<^verbatim>\<open>Vertex_tool_calling_for_Llama_4.ipynb\<close> holds two variants of one
  tool-calling loop: cells written against the OpenAI SDK (\<^verbatim>\<open>get_exchange_rate\<close>,
  \<^verbatim>\<open>tools\<close>, \<^verbatim>\<open>main\<close> at lines 114--235) and cells written against the Vertex SDK
  (lines 334--453). Both are embedded below, each from its own cell.

  A Python value that flows through the code (a parsed JSON document, \<^verbatim>\<open>None\<close>, a
  string) is a \<open>json\<close>; \<^verbatim>\<open>None\<close> is \<open>JNull\<close>. A dictionary is an association list, read
  with \<open>map_of\<close>; a Python dictionary has no duplicate keys.
\<close>

datatype json =
    JNull
  | JBool bool
  | JInt int
  | JFloat rat
  | JString string
  | JArray "json list"
  | JObject "(string \<times> json) list"

text \<open>A raised exception: its class name and the text \<^verbatim>\<open>str(e)\<close> gives.\<close>

datatype exn = Exn (exn_class: string) (exn_str: string)

fun type_name :: "json \<Rightarrow> string" where
  "type_name JNull = ''NoneType''"
| "type_name (JBool b) = ''bool''"
| "type_name (JInt i) = ''int''"
| "type_name (JFloat r) = ''float''"
| "type_name (JString s) = ''str''"
| "type_name (JArray xs) = ''list''"
| "type_name (JObject kvs) = ''dict''"

definition py_quote :: "string \<Rightarrow> string" where
  "py_quote s = CHR 0x27 # s @ [CHR 0x27]"

text \<open>\<^verbatim>\<open>d.get(key, default)\<close> on a dictionary.\<close>

definition args_get :: "(string \<times> json) list \<Rightarrow> string \<Rightarrow> json \<Rightarrow> json" where
  "args_get kvs key dflt = (case map_of kvs key of Some v \<Rightarrow> v | None \<Rightarrow> dflt)"

text \<open>
  \<^verbatim>\<open>args.get(key, default)\<close> on whatever \<^verbatim>\<open>json.loads\<close> returned: only a dictionary has
  the method, every other value raises \<^verbatim>\<open>AttributeError\<close>.
\<close>

definition dict_get :: "json \<Rightarrow> string \<Rightarrow> json \<Rightarrow> exn + json" where
  "dict_get args key dflt =
     (case args of
        JObject kvs \<Rightarrow> Inr (args_get kvs key dflt)
      | _ \<Rightarrow> Inl (Exn ''AttributeError''
                 (py_quote (type_name args) @ '' object has no attribute '' @ py_quote ''get'')))"

subsection \<open>The OpenAI SDK objects the code reads\<close>

text \<open>
  \<^verbatim>\<open>tool_call.id\<close>, \<^verbatim>\<open>tool_call.function.name\<close>, \<^verbatim>\<open>tool_call.function.arguments\<close>;
  \<^verbatim>\<open>message.content\<close>, \<^verbatim>\<open>message.tool_calls\<close> (both may be \<^verbatim>\<open>None\<close>);
  \<^verbatim>\<open>completion.choices[i].message\<close>.
\<close>

record tool_call =
  tc_id :: string
  tc_name :: string
  tc_arguments :: string

record chat_message =
  content :: "string option"
  tool_calls :: "tool_call list option"

record chat_completion =
  choices :: "chat_message list"

text \<open>
  An entry of the list \<^verbatim>\<open>messages\<close>: a dictionary with string values, or the message
  object of a completion.
\<close>

datatype turn =
    Dict_turn "(string \<times> string) list"
  | Message_turn chat_message

text \<open>A function declaration: name, description, properties (name, type, description), required.\<close>

record tool_spec =
  ts_name :: string
  ts_description :: string
  ts_properties :: "(string \<times> string \<times> string) list"
  ts_required :: "string list"

text \<open>The keyword arguments of \<^verbatim>\<open>client.chat.completions.create\<close>.\<close>

record chat_request =
  req_model :: string
  req_messages :: "turn list"
  req_tools :: "tool_spec list option"
  req_temperature :: rat
  req_max_tokens :: "nat option"
  req_tool_choice :: "string option"

subsection \<open>The Vertex SDK objects the code reads\<close>

text \<open>
  \<^verbatim>\<open>function_call.name\<close>, \<^verbatim>\<open>function_call.args\<close> (already a mapping). A response holds
  candidates, a candidate holds the parts of its content, and a part is a text or a
  function call. What \<^verbatim>\<open>chat.send_message\<close> is given: the user's text, or a
  \<^verbatim>\<open>Content(role="function", parts=[Part.from_function_response(name, response)])\<close>.
\<close>

record function_call =
  fc_name :: string
  fc_args :: "(string \<times> json) list"

datatype part =
    Text_part string
  | Call_part function_call

record candidate =
  parts :: "part list"

record generation_response =
  candidates :: "candidate list"

datatype vertex_content =
    User_text string
  | Function_response string json

text \<open>
  The two properties the code reads are computed by the SDK from the parts.
  \<^verbatim>\<open>candidate.function_calls\<close> lists the function calls among the parts, in order.
  \<^verbatim>\<open>response.text\<close> is the text of the only part of the only candidate: several
  candidates, several parts, or a part that is a function call raise \<^verbatim>\<open>ValueError\<close>, and
  an empty list raises \<^verbatim>\<open>IndexError\<close>. So a response that holds a function call has no
  text. The messages of the exceptions are shortened.
\<close>

fun call_of :: "part \<Rightarrow> function_call list" where
  "call_of (Call_part fc) = [fc]"
| "call_of (Text_part s) = []"

definition function_calls :: "candidate \<Rightarrow> function_call list" where
  "function_calls cand = concat (map call_of (parts cand))"

definition candidate_text :: "candidate \<Rightarrow> exn + string" where
  "candidate_text cand =
     (case parts cand of
        [] \<Rightarrow> Inl (Exn ''IndexError'' ''list index out of range'')
      | [Text_part s] \<Rightarrow> Inr s
      | [Call_part fc] \<Rightarrow> Inl (Exn ''ValueError'' ''Cannot get the Candidate text.'')
      | _ \<Rightarrow> Inl (Exn ''ValueError'' ''Cannot get the Candidate text.''))"

definition response_text :: "generation_response \<Rightarrow> exn + string" where
  "response_text response =
     (case candidates response of
        [] \<Rightarrow> Inl (Exn ''IndexError'' ''list index out of range'')
      | [cand] \<Rightarrow> candidate_text cand
      | _ \<Rightarrow> Inl (Exn ''ValueError'' ''The response has multiple candidates.''))"

text \<open>
  \<^verbatim>\<open>Part.from_function_response(name, response)\<close> builds a structured message and accepts
  only a mapping as \<^verbatim>\<open>response\<close>: any other value raises when the message is built.
\<close>

definition from_function_response :: "string \<Rightarrow> json \<Rightarrow> exn + vertex_content" where
  "from_function_response name response =
     (case response of
        JObject kvs \<Rightarrow> Inr (Function_response name response)
      | _ \<Rightarrow> Inl (Exn ''AttributeError''
                 (py_quote (type_name response) @ '' object has no attribute '' @
                  py_quote ''items'')))"

subsection \<open>The HTTP response and the environment\<close>

text \<open>
  A \<^verbatim>\<open>requests\<close> response, by what its two methods do when the code calls them:
  \<^verbatim>\<open>raise_for_status()\<close> returns or raises, \<^verbatim>\<open>json()\<close> returns the parsed body or raises.
\<close>

record http_response =
  raise_for_status :: "exn option"
  response_json :: "exn + json"

text \<open>
  Everything the notebook calls but does not define is a parameter: the model endpoint
  behind each SDK, the HTTP library, \<^verbatim>\<open>json.loads\<close>, \<^verbatim>\<open>json.dumps\<close> and \<^verbatim>\<open>str\<close> of a value
  that is not a string. The endpoint and the HTTP service are given the number of earlier
  calls, so that the same request may be answered differently each time. \<open>Inl\<close> is a raised
  exception.

  The cells of the OpenAI variant import \<^verbatim>\<open>google.auth\<close>, \<^verbatim>\<open>openai\<close>, \<^verbatim>\<open>json\<close> and
  \<^verbatim>\<open>google_requests\<close> (lines 66--70) and never \<^verbatim>\<open>requests\<close>; the only \<^verbatim>\<open>import requests\<close>
  is at line 281, in a cell of the Vertex variant that comes after the OpenAI \<^verbatim>\<open>main\<close>.
  \<open>requests_bound\<close> says whether the name \<^verbatim>\<open>requests\<close> is bound when the OpenAI
  \<^verbatim>\<open>get_exchange_rate\<close> runs: it is not when the notebook is run in order, and it is in a
  kernel where the later cell has already run. The Vertex \<^verbatim>\<open>get_exchange_rate\<close> comes after
  the import and always finds the name.
\<close>

record env =
  chat_create :: "nat \<Rightarrow> chat_request \<Rightarrow> exn + chat_completion"
  send_message :: "nat \<Rightarrow> vertex_content \<Rightarrow> exn + generation_response"
  requests_bound :: bool
  requests_get :: "nat \<Rightarrow> string \<Rightarrow> (string \<times> json) list \<Rightarrow> exn + http_response"
  json_loads :: "string \<Rightarrow> exn + json"
  json_dumps :: "json \<Rightarrow> string"
  str_other :: "json \<Rightarrow> string"

text \<open>
  What an observer sees, in order: a chat-completions request, a message sent on the
  Vertex chat, a call of \<^verbatim>\<open>get_exchange_rate\<close> with its three arguments, an HTTP GET with
  its URL and \<^verbatim>\<open>params\<close>, a \<^verbatim>\<open>print\<close> with its two arguments.
\<close>

datatype event =
    Model_query chat_request
  | Send_message vertex_content
  | Tool_exec json json json
  | Http_get string "(string \<times> json) list"
  | Print_line string "string option"

text \<open>
  The state the code changes: the module-level list \<^verbatim>\<open>messages\<close>, the events so far, and
  how many model queries and HTTP requests have been made.
\<close>

record world =
  messages :: "turn list"
  events :: "event list"
  model_calls :: nat
  http_calls :: nat

text \<open>\<^verbatim>\<open>str(v)\<close>, as the f-string of the URL applies it.\<close>

definition py_str :: "env \<Rightarrow> json \<Rightarrow> string" where
  "py_str env v =
     (case v of
        JString s \<Rightarrow> s
      | JNull \<Rightarrow> ''None''
      | JBool b \<Rightarrow> (if b then ''True'' else ''False'')
      | _ \<Rightarrow> str_other env v)"

section \<open>The OpenAI variant\<close>

text \<open>
  \<^verbatim>\<open>get_exchange_rate\<close> (lines 114--126). The \<^verbatim>\<open>try\<close> body builds the URL and the
  parameters, evaluates \<^verbatim>\<open>requests.get\<close>, calls it, then \<^verbatim>\<open>raise_for_status\<close> and
  \<^verbatim>\<open>response.json\<close>, and returns \<^verbatim>\<open>json.dumps\<close> of the payload; \<^verbatim>\<open>except Exception as e\<close>
  returns the text \<^verbatim>\<open>"Error fetching exchange rate: " + str(e)\<close>. When the name \<^verbatim>\<open>requests\<close>
  is unbound, line 122 raises \<^verbatim>\<open>NameError\<close> inside the \<^verbatim>\<open>try\<close> before any request is made.
\<close>

definition name_error :: "string \<Rightarrow> exn" where
  "name_error name = Exn ''NameError'' (''name '' @ py_quote name @ '' is not defined'')"

definition get_exchange_rate_openai ::
  "env \<Rightarrow> json \<Rightarrow> json \<Rightarrow> json \<Rightarrow> world \<Rightarrow> (exn + string) \<times> world" where
  "get_exchange_rate_openai env currency_date currency_from currency_to w =
     (let w0 = w\<lparr>events := events w @ [Tool_exec currency_date currency_from currency_to]\<rparr>;
          url = ''https://api.frankfurter.app/'' @ py_str env currency_date;
          params = [(''from'', currency_from), (''to'', currency_to)]
      in if requests_bound env then
           (let w1 = w0\<lparr>events := events w0 @ [Http_get url params],
                        http_calls := Suc (http_calls w0)\<rparr>
            in case (case requests_get env (http_calls w0) url params of
                       Inl e \<Rightarrow> Inl e
                     | Inr response \<Rightarrow>
                         (case raise_for_status response of
                            Some e \<Rightarrow> Inl e
                          | None \<Rightarrow>
                              (case response_json response of
                                 Inl e \<Rightarrow> Inl e
                               | Inr payload \<Rightarrow> Inr (json_dumps env payload)))) of
                 Inr dumped \<Rightarrow> (Inr dumped, w1)
               | Inl e \<Rightarrow> (Inr (''Error fetching exchange rate: '' @ exn_str e), w1))
         else (Inr (''Error fetching exchange rate: '' @ exn_str (name_error ''requests'')), w0))"

text \<open>The declaration \<^verbatim>\<open>tools\<close> (lines 146--170).\<close>

definition tools :: "tool_spec list" where
  "tools =
     [\<lparr>ts_name = ''get_exchange_rate'',
       ts_description = ''Get the exchange rate for currencies between countries'',
       ts_properties =
         [(''currency_date'', ''string'',
            ''A date in YYYY-MM-DD format or '' @ py_quote ''latest''),
          (''currency_from'', ''string'', ''The currency to convert from in ISO 4217 format''),
          (''currency_to'', ''string'', ''The currency to convert to in ISO 4217 format'')],
       ts_required = [''currency_from'', ''currency_to'']\<rparr>]"

text \<open>
  Lines 212--216 of \<^verbatim>\<open>main\<close>: parse the arguments, read the three fields (the date with
  the default \<^verbatim>\<open>"latest"\<close>, the two currencies with \<^verbatim>\<open>None\<close>), call the function. Nothing
  here is inside a \<^verbatim>\<open>try\<close>: an exception of \<^verbatim>\<open>json.loads\<close> or of \<^verbatim>\<open>.get\<close> leaves the block.
\<close>

definition execute_openai :: "env \<Rightarrow> string \<Rightarrow> world \<Rightarrow> (exn + string) \<times> world" where
  "execute_openai env arguments w =
     (case json_loads env arguments of
        Inl e \<Rightarrow> (Inl e, w)
      | Inr args \<Rightarrow>
          (case dict_get args ''currency_date'' (JString ''latest'') of
             Inl e \<Rightarrow> (Inl e, w)
           | Inr currency_date \<Rightarrow>
               (case dict_get args ''currency_from'' JNull of
                  Inl e \<Rightarrow> (Inl e, w)
                | Inr currency_from \<Rightarrow>
                    (case dict_get args ''currency_to'' JNull of
                       Inl e \<Rightarrow> (Inl e, w)
                     | Inr currency_to \<Rightarrow>
                         get_exchange_rate_openai env currency_date currency_from
                           currency_to w))))"

text \<open>The follow-up request of lines 227--231: the messages and the temperature only.\<close>

definition followup_request :: "turn list \<Rightarrow> chat_request" where
  "followup_request ms =
     \<lparr>req_model = ''meta/llama-4-maverick-17b-128e-instruct-maas'',
      req_messages = ms,
      req_tools = None,
      req_temperature = 1 / 10,
      req_max_tokens = None,
      req_tool_choice = None\<rparr>"

text \<open>The first request of lines 198--205.\<close>

definition first_request :: "turn list \<Rightarrow> chat_request" where
  "first_request ms =
     \<lparr>req_model = ''meta/llama-4-maverick-17b-128e-instruct-maas'',
      req_messages = ms,
      req_tools = Some tools,
      req_temperature = 1 / 10,
      req_max_tokens = Some 512,
      req_tool_choice = Some ''auto''\<rparr>"

text \<open>The tool turn of lines 220--224.\<close>

definition tool_turn :: "string \<Rightarrow> string \<Rightarrow> turn" where
  "tool_turn call_id result =
     Dict_turn [(''role'', ''tool''), (''tool_call_id'', call_id), (''content'', result)]"

text \<open>
  The body of the \<^verbatim>\<open>for\<close> loop (lines 211--233) for one \<^verbatim>\<open>tool_call\<close>; \<open>message\<close> is
  \<^verbatim>\<open>completion.choices[0].message\<close>. The result is the exception that left the body, if any.
\<close>

definition resolve_tool_call ::
  "env \<Rightarrow> chat_message \<Rightarrow> tool_call \<Rightarrow> world \<Rightarrow> exn option \<times> world" where
  "resolve_tool_call env message tool_call w =
     (if tc_name tool_call = ''get_exchange_rate'' then
        (case execute_openai env (tc_arguments tool_call) w of
           (Inl e, w1) \<Rightarrow> (Some e, w1)
         | (Inr result, w1) \<Rightarrow>
             (let w2 = w1\<lparr>messages := messages w1 @ [Message_turn message]\<rparr>;
                  w3 = w2\<lparr>messages := messages w2 @ [tool_turn (tc_id tool_call) result]\<rparr>;
                  request = followup_request (messages w3);
                  w4 = w3\<lparr>events := events w3 @ [Model_query request],
                          model_calls := Suc (model_calls w3)\<rparr>
              in case chat_create env (model_calls w3) request of
                   Inl e \<Rightarrow> (Some e, w4)
                 | Inr final_response \<Rightarrow>
                     (case choices final_response of
                        [] \<Rightarrow> (Some (Exn ''IndexError'' ''list index out of range''), w4)
                      | final_message # _ \<Rightarrow>
                          (None, w4\<lparr>events := events w4 @
                             [Print_line ''Final response:'' (content final_message)]\<rparr>))))
      else (None, w))"

text \<open>The \<^verbatim>\<open>for\<close> loop of line 210: the calls in list order, left by the first exception.\<close>

fun tool_loop_openai ::
  "env \<Rightarrow> chat_message \<Rightarrow> tool_call list \<Rightarrow> world \<Rightarrow> exn option \<times> world" where
  "tool_loop_openai env message [] w = (None, w)"
| "tool_loop_openai env message (tool_call # rest) w =
     (case resolve_tool_call env message tool_call w of
        (Some e, w') \<Rightarrow> (Some e, w')
      | (None, w') \<Rightarrow> tool_loop_openai env message rest w')"

text \<open>
  \<^verbatim>\<open>main\<close> (lines 191--235). \<open>user_query\<close> is what \<^verbatim>\<open>input\<close> returned; \<open>messages0\<close> is the
  value of the module-level list \<^verbatim>\<open>messages\<close> when \<^verbatim>\<open>main\<close> starts, which \<^verbatim>\<open>main\<close> reads
  and no cell of the notebook defines. The source assigns \<^verbatim>\<open>user_query\<close> and never reads it.
\<close>

definition main_openai :: "env \<Rightarrow> string \<Rightarrow> turn list \<Rightarrow> exn option \<times> world" where
  "main_openai env user_query messages0 =
     (let w0 = \<lparr>messages = messages0, events = [], model_calls = 0, http_calls = 0\<rparr>;
          request = first_request (messages w0);
          w1 = w0\<lparr>events := events w0 @ [Model_query request],
                  model_calls := Suc (model_calls w0)\<rparr>
      in case chat_create env (model_calls w0) request of
           Inl e \<Rightarrow> (Some e, w1)
         | Inr completion \<Rightarrow>
             (case choices completion of
                [] \<Rightarrow> (Some (Exn ''IndexError'' ''list index out of range''), w1)
              | message # _ \<Rightarrow>
                  (case tool_calls message of
                     Some (tool_call # rest) \<Rightarrow>
                       tool_loop_openai env message (tool_call # rest) w1
                   | _ \<Rightarrow>
                       (None, w1\<lparr>events := events w1 @
                          [Print_line ''Direct response:'' (content message)]\<rparr>))))"

section \<open>The Vertex variant\<close>

text \<open>
  \<^verbatim>\<open>get_exchange_rate\<close> as the second half of the notebook redefines it (lines 334--346):
  the same \<^verbatim>\<open>try\<close> body, but the payload is returned as parsed, and the handler returns
  the dictionary \<^verbatim>\<open>{"error": str(e)}\<close>.
\<close>

definition get_exchange_rate_vertex ::
  "env \<Rightarrow> json \<Rightarrow> json \<Rightarrow> json \<Rightarrow> world \<Rightarrow> (exn + json) \<times> world" where
  "get_exchange_rate_vertex env currency_date currency_from currency_to w =
     (let w0 = w\<lparr>events := events w @ [Tool_exec currency_date currency_from currency_to]\<rparr>;
          url = ''https://api.frankfurter.app/'' @ py_str env currency_date;
          params = [(''from'', currency_from), (''to'', currency_to)];
          w1 = w0\<lparr>events := events w0 @ [Http_get url params],
                  http_calls := Suc (http_calls w0)\<rparr>
      in case (case requests_get env (http_calls w0) url params of
                 Inl e \<Rightarrow> Inl e
               | Inr response \<Rightarrow>
                   (case raise_for_status response of
                      Some e \<Rightarrow> Inl e
                    | None \<Rightarrow> response_json response)) of
           Inr payload \<Rightarrow> (Inr payload, w1)
         | Inl e \<Rightarrow> (Inr (JObject [(''error'', JString (exn_str e))]), w1))"

text \<open>The declaration \<^verbatim>\<open>get_exchange_rate_func\<close> inside \<^verbatim>\<open>exchange_tool\<close> (lines 366--391).\<close>

definition exchange_tool :: "tool_spec list" where
  "exchange_tool =
     [\<lparr>ts_name = ''get_exchange_rate'',
       ts_description = ''Get the exchange rate for currencies between countries'',
       ts_properties =
         [(''currency_date'', ''string'',
            ''A date in YYYY-MM-DD format or '' @ py_quote ''latest''),
          (''currency_from'', ''string'', ''The currency to convert from in ISO 4217 format''),
          (''currency_to'', ''string'', ''The currency to convert to in ISO 4217 format'')],
       ts_required = [''currency_from'', ''currency_to'']\<rparr>]"

text \<open>Lines 430--436: the arguments arrive parsed; the same three reads, then the call.\<close>

definition execute_vertex ::
  "env \<Rightarrow> (string \<times> json) list \<Rightarrow> world \<Rightarrow> (exn + json) \<times> world" where
  "execute_vertex env args w =
     (let currency_date = args_get args ''currency_date'' (JString ''latest'');
          currency_from = args_get args ''currency_from'' JNull;
          currency_to = args_get args ''currency_to'' JNull
      in get_exchange_rate_vertex env currency_date currency_from currency_to w)"

text \<open>
  The body of the \<^verbatim>\<open>for\<close> loop (lines 428--451) for one \<^verbatim>\<open>function_call\<close>. The message
  is built (lines 440--448) before \<^verbatim>\<open>chat.send_message\<close> is called, and \<^verbatim>\<open>final_response.text\<close>
  (line 451) is read after it returns; either may raise, and nothing here is in a \<^verbatim>\<open>try\<close>.
\<close>

definition resolve_function_call ::
  "env \<Rightarrow> function_call \<Rightarrow> world \<Rightarrow> exn option \<times> world" where
  "resolve_function_call env function_call w =
     (if fc_name function_call = ''get_exchange_rate'' then
        (case execute_vertex env (fc_args function_call) w of
           (Inl e, w1) \<Rightarrow> (Some e, w1)
         | (Inr result, w1) \<Rightarrow>
             (case from_function_response ''get_exchange_rate'' result of
                Inl e \<Rightarrow> (Some e, w1)
              | Inr sent \<Rightarrow>
                  (let w2 = w1\<lparr>events := events w1 @ [Send_message sent],
                               model_calls := Suc (model_calls w1)\<rparr>
                   in case send_message env (model_calls w1) sent of
                        Inl e \<Rightarrow> (Some e, w2)
                      | Inr final_response \<Rightarrow>
                          (case response_text final_response of
                             Inl e \<Rightarrow> (Some e, w2)
                           | Inr final_text \<Rightarrow>
                               (None, w2\<lparr>events := events w2 @
                                  [Print_line ''Final response:'' (Some final_text)]\<rparr>)))))
      else (None, w))"

fun tool_loop_vertex :: "env \<Rightarrow> function_call list \<Rightarrow> world \<Rightarrow> exn option \<times> world" where
  "tool_loop_vertex env [] w = (None, w)"
| "tool_loop_vertex env (function_call # rest) w =
     (case resolve_function_call env function_call w of
        (Some e, w') \<Rightarrow> (Some e, w')
      | (None, w') \<Rightarrow> tool_loop_vertex env rest w')"

text \<open>
  \<^verbatim>\<open>main\<close> (lines 418--453). The chat session keeps its history inside the SDK; the code
  itself holds no list, so \<open>messages\<close> stays empty here.
\<close>

definition main_vertex :: "env \<Rightarrow> string \<Rightarrow> exn option \<times> world" where
  "main_vertex env user_query =
     (let w0 = \<lparr>messages = [], events = [], model_calls = 0, http_calls = 0\<rparr>;
          sent = User_text user_query;
          w1 = w0\<lparr>events := events w0 @ [Send_message sent],
                  model_calls := Suc (model_calls w0)\<rparr>
      in case send_message env (model_calls w0) sent of
           Inl e \<Rightarrow> (Some e, w1)
         | Inr response \<Rightarrow>
             (case candidates response of
                [] \<Rightarrow> (Some (Exn ''IndexError'' ''list index out of range''), w1)
              | cand # _ \<Rightarrow>
                  (case function_calls cand of
                     function_call # rest \<Rightarrow> tool_loop_vertex env (function_call # rest) w1
                   | [] \<Rightarrow>
                       (case response_text response of
                          Inl e \<Rightarrow> (Some e, w1)
                        | Inr direct_text \<Rightarrow>
                            (None, w1\<lparr>events := events w1 @
                               [Print_line ''Direct response:'' (Some direct_text)]\<rparr>)))))"

section \<open>Reading a run\<close>

fun is_query :: "event \<Rightarrow> bool" where
  "is_query (Model_query request) = True"
| "is_query (Send_message sent) = True"
| "is_query ev = False"

fun is_exec :: "event \<Rightarrow> bool" where
  "is_exec (Tool_exec d f t) = True"
| "is_exec ev = False"


text \<open>The events from the first follow-up query on (the second model query and all after it).\<close>

definition from_followup :: "event list \<Rightarrow> event list" where
  "from_followup evs = dropWhile (\<lambda>ev. \<not> is_query ev) (drop 1 (dropWhile (\<lambda>ev. \<not> is_query ev) evs))"

text \<open>The events before the first follow-up query.\<close>

definition before_followup :: "event list \<Rightarrow> event list" where
  "before_followup evs =
     takeWhile (\<lambda>ev. \<not> is_query ev) (drop 1 (dropWhile (\<lambda>ev. \<not> is_query ev) evs))"

definition followup_count :: "event list \<Rightarrow> nat" where
  "followup_count evs = length (filter is_query evs) - 1"

definition exec_count :: "event list \<Rightarrow> nat" where
  "exec_count evs = length (filter is_exec evs)"

text \<open>The kind of an event, and the shape of a run as the list of its kinds.\<close>

datatype kind = Query | Exec | Http | Print

fun event_kind :: "event \<Rightarrow> kind" where
  "event_kind (Model_query request) = Query"
| "event_kind (Send_message sent) = Query"
| "event_kind (Tool_exec d f t) = Exec"
| "event_kind (Http_get url params) = Http"
| "event_kind (Print_line label body) = Print"

text \<open>The test of line 211.\<close>

definition registered :: "tool_call \<Rightarrow> bool" where
  "registered tc = (tc_name tc = ''get_exchange_rate'')"

text \<open>
  The call of \<^verbatim>\<open>get_exchange_rate\<close> that a tool call asks for, when its arguments parse to
  a dictionary: the date or \<^verbatim>\<open>"latest"\<close>, the two currencies or \<^verbatim>\<open>None\<close>.
\<close>

definition exec_of :: "(string \<times> json) list \<Rightarrow> event" where
  "exec_of kvs =
     Tool_exec (args_get kvs ''currency_date'' (JString ''latest''))
       (args_get kvs ''currency_from'' JNull) (args_get kvs ''currency_to'' JNull)"

definition execs_of :: "env \<Rightarrow> tool_call \<Rightarrow> event list" where
  "execs_of env tc =
     (case json_loads env (tc_arguments tc) of
        Inr (JObject kvs) \<Rightarrow> [exec_of kvs]
      | _ \<Rightarrow> [])"

text \<open>
  The outcome of the three library calls in the \<^verbatim>\<open>try\<close> body of \<^verbatim>\<open>get_exchange_rate\<close>,
  when \<open>k\<close> HTTP requests were made before: the parsed payload, or the first exception.
\<close>

definition fetch :: "env \<Rightarrow> nat \<Rightarrow> json \<Rightarrow> json \<Rightarrow> json \<Rightarrow> exn + json" where
  "fetch env k currency_date currency_from currency_to =
     (case requests_get env k (''https://api.frankfurter.app/'' @ py_str env currency_date)
             [(''from'', currency_from), (''to'', currency_to)] of
        Inl e \<Rightarrow> Inl e
      | Inr response \<Rightarrow>
          (case raise_for_status response of
             Some e \<Rightarrow> Inl e
           | None \<Rightarrow> response_json response))"

text \<open>
  The same for the OpenAI \<^verbatim>\<open>get_exchange_rate\<close>, where the name \<^verbatim>\<open>requests\<close> is looked up
  first: unbound, the outcome is the \<^verbatim>\<open>NameError\<close>. And the HTTP requests that one call of
  it issues: the one GET when the name is bound, none otherwise.
\<close>

definition fetch_openai :: "env \<Rightarrow> nat \<Rightarrow> json \<Rightarrow> json \<Rightarrow> json \<Rightarrow> exn + json" where
  "fetch_openai env k currency_date currency_from currency_to =
     (if requests_bound env then fetch env k currency_date currency_from currency_to
      else Inl (name_error ''requests''))"

definition issued :: "env \<Rightarrow> json \<Rightarrow> json \<Rightarrow> json \<Rightarrow> event list" where
  "issued env currency_date currency_from currency_to =
     (if requests_bound env
      then [Http_get (''https://api.frankfurter.app/'' @ py_str env currency_date)
              [(''from'', currency_from), (''to'', currency_to)]]
      else [])"

text \<open>How each variant hands an outcome on.\<close>

definition openai_form :: "env \<Rightarrow> exn + json \<Rightarrow> string" where
  "openai_form env outcome =
     (case outcome of
        Inr payload \<Rightarrow> json_dumps env payload
      | Inl e \<Rightarrow> ''Error fetching exchange rate: '' @ exn_str e)"

definition vertex_form :: "exn + json \<Rightarrow> json" where
  "vertex_form outcome =
     (case outcome of
        Inr payload \<Rightarrow> payload
      | Inl e \<Rightarrow> JObject [(''error'', JString (exn_str e))])"

text \<open>
  A step of the protocol, with what both variants have in common: a model round trip, a
  call of the tool, an HTTP request, a printed answer.
\<close>

datatype step =
    Ask
  | Ran json json json
  | Got string "(string \<times> json) list"
  | Said string "string option"

fun step_of :: "event \<Rightarrow> step" where
  "step_of (Model_query request) = Ask"
| "step_of (Send_message sent) = Ask"
| "step_of (Tool_exec d f t) = Ran d f t"
| "step_of (Http_get url params) = Got url params"
| "step_of (Print_line label body) = Said label body"

text \<open>A tool call of the OpenAI variant and a function call of the Vertex variant that ask
  for the same thing.\<close>

definition same_call :: "env \<Rightarrow> tool_call \<Rightarrow> function_call \<Rightarrow> bool" where
  "same_call env tc fc =
     (tc_name tc = fc_name fc \<and> json_loads env (tc_arguments tc) = Inr (JObject (fc_args fc)))"

text \<open>The tool calls of the first completion (none when there is no such thing).\<close>

definition first_tool_calls :: "env \<Rightarrow> turn list \<Rightarrow> tool_call list" where
  "first_tool_calls env ms =
     (case chat_create env 0 (first_request ms) of
        Inl e \<Rightarrow> []
      | Inr completion \<Rightarrow>
          (case choices completion of
             [] \<Rightarrow> []
           | message # _ \<Rightarrow> (case tool_calls message of None \<Rightarrow> [] | Some tcs \<Rightarrow> tcs)))"

text \<open>
  The same environment, with every tool-call request erased from every completion after
  the first.
\<close>

definition no_calls :: "chat_completion \<Rightarrow> chat_completion" where
  "no_calls completion =
     completion\<lparr>choices := map (\<lambda>m. m\<lparr>tool_calls := None\<rparr>) (choices completion)\<rparr>"

definition later_calls_erased :: "env \<Rightarrow> env" where
  "later_calls_erased env =
     env\<lparr>chat_create := (\<lambda>k request. if k = 0 then chat_create env k request
                                       else map_sum id no_calls (chat_create env k request))\<rparr>"

section \<open>Scenarios\<close>

text \<open>
  Concrete environments for the examples. The parser and the serialiser are tables that
  agree with \<^verbatim>\<open>json.loads\<close> and \<^verbatim>\<open>json.dumps\<close> on the texts and values the scenarios use;
  no scenario applies them to anything else.
\<close>

definition usd_eur_arguments :: string where
  \<open>usd_eur_arguments = ''{"currency_from":"USD","currency_to":"EUR"}''\<close>

definition usd_gbp_arguments :: string where
  \<open>usd_gbp_arguments = ''{"currency_from":"USD","currency_to":"GBP"}''\<close>

definition eur_only_arguments :: string where
  \<open>eur_only_arguments = ''{"currency_to":"EUR"}''\<close>

definition usd_eur_args :: "(string \<times> json) list" where
  "usd_eur_args = [(''currency_from'', JString ''USD''), (''currency_to'', JString ''EUR'')]"

definition usd_gbp_args :: "(string \<times> json) list" where
  "usd_gbp_args = [(''currency_from'', JString ''USD''), (''currency_to'', JString ''GBP'')]"

definition eur_only_args :: "(string \<times> json) list" where
  "eur_only_args = [(''currency_to'', JString ''EUR'')]"

definition table_loads :: "string \<Rightarrow> exn + json" where
  "table_loads s =
     (if s = usd_eur_arguments then Inr (JObject usd_eur_args)
      else if s = usd_gbp_arguments then Inr (JObject usd_gbp_args)
      else if s = eur_only_arguments then Inr (JObject eur_only_args)
      else if s = ''{}'' then Inr (JObject [])
      else Inl (Exn ''JSONDecodeError'' ''Expecting value: line 1 column 1 (char 0)''))"

definition rates_payload :: json where
  "rates_payload = JObject [(''amount'', JInt 100), (''rates'', JObject [(''EUR'', JFloat 88.645)])]"

definition rates_text :: string where
  \<open>rates_text = ''{"amount": 100, "rates": {"EUR": 88.645}}''\<close>

definition table_dumps :: "json \<Rightarrow> string" where
  \<open>table_dumps v =
     (if v = rates_payload then rates_text
      else if v = JObject [(''error'', JString ''connection refused'')]
      then ''{"error": "connection refused"}''
      else if v = JArray [JInt 1, JInt 2] then ''[1, 2]''
      else ''null'')\<close>

definition ok_response :: http_response where
  "ok_response = \<lparr>raise_for_status = None, response_json = Inr rates_payload\<rparr>"

definition not_found_response :: http_response where
  "not_found_response =
     \<lparr>raise_for_status = Some (Exn ''HTTPError''
        ''404 Client Error: Not Found for url: https://api.frankfurter.app/latest?from=USD&to=EUR''),
      response_json = Inr (JObject [(''message'', JString ''not found'')])\<rparr>"

definition final_text :: string where
  "final_text = ''The exchange rate for 100 USD to EUR is 88.645 EUR.''"

definition final_message :: chat_message where
  "final_message = \<lparr>content = Some final_text, tool_calls = None\<rparr>"

text \<open>
  The environment of a scenario: the message of the first completion, what every later
  completion holds, the first Vertex response, and what every HTTP request meets. Every
  later Vertex response is the text \<open>final_text\<close>. The name \<^verbatim>\<open>requests\<close> is bound, as in a
  kernel where the cell of line 281 has run.
\<close>

definition scenario ::
  "chat_message \<Rightarrow> chat_message \<Rightarrow> generation_response \<Rightarrow> (exn + http_response) \<Rightarrow> env" where
  "scenario first later vfirst http =
     \<lparr>chat_create = (\<lambda>k request. if k = 0 then Inr \<lparr>choices = [first]\<rparr>
                                    else Inr \<lparr>choices = [later]\<rparr>),
      send_message = (\<lambda>k sent. if k = 0 then Inr vfirst
                                else Inr \<lparr>candidates = [\<lparr>parts = [Text_part final_text]\<rparr>]\<rparr>),
      requests_bound = True,
      requests_get = (\<lambda>k url params. http),
      json_loads = table_loads,
      json_dumps = table_dumps,
      str_other = (\<lambda>v. ''?'')\<rparr>"

definition calling :: "tool_call list \<Rightarrow> chat_message" where
  "calling tcs = \<lparr>content = None, tool_calls = Some tcs\<rparr>"

definition vcalling :: "function_call list \<Rightarrow> generation_response" where
  "vcalling fcs = \<lparr>candidates = [\<lparr>parts = map Call_part fcs\<rparr>]\<rparr>"

definition user_turn :: "string \<Rightarrow> turn" where
  "user_turn q = Dict_turn [(''role'', ''user''), (''content'', q)]"

definition system_turn :: turn where
  "system_turn = Dict_turn [(''role'', ''system''), (''content'', ''You convert currencies.'')]"

definition call_1 :: tool_call where
  "call_1 = \<lparr>tc_id = ''call_1'', tc_name = ''get_exchange_rate'', tc_arguments = usd_eur_arguments\<rparr>"

definition call_2 :: tool_call where
  "call_2 = \<lparr>tc_id = ''call_2'', tc_name = ''get_exchange_rate'', tc_arguments = usd_gbp_arguments\<rparr>"

definition vcall_1 :: function_call where
  "vcall_1 = \<lparr>fc_name = ''get_exchange_rate'', fc_args = usd_eur_args\<rparr>"

definition vcall_2 :: function_call where
  "vcall_2 = \<lparr>fc_name = ''get_exchange_rate'', fc_args = usd_gbp_args\<rparr>"

definition bad_call :: tool_call where
  "bad_call = \<lparr>tc_id = ''call_1'', tc_name = ''get_exchange_rate'', tc_arguments = ''not json''\<rparr>"

definition unknown_call :: tool_call where
  "unknown_call = \<lparr>tc_id = ''call_1'', tc_name = ''unknown_tool'', tc_arguments = ''{}''\<rparr>"

text \<open>One registered call; two registered calls; the service down.\<close>

definition one_call_env :: env where
  "one_call_env = scenario (calling [call_1]) final_message (vcalling [vcall_1]) (Inr ok_response)"

definition two_calls_env :: env where
  "two_calls_env =
     scenario (calling [call_1, call_2]) final_message (vcalling [vcall_1, vcall_2])
       (Inr ok_response)"

definition service_down_env :: env where
  "service_down_env =
     scenario (calling [call_1]) final_message (vcalling [vcall_1])
       (Inl (Exn ''ConnectionError'' ''connection refused''))"

text \<open>The service answers 404.\<close>

definition not_found_env :: env where
  "not_found_env =
     scenario (calling [call_1]) final_message (vcalling [vcall_1]) (Inr not_found_response)"

text \<open>A model that asks for a tool again in every later completion.\<close>

definition insisting_env :: env where
  "insisting_env =
     one_call_env\<lparr>chat_create := (\<lambda>k request. Inr \<lparr>choices = [calling [call_1]]\<rparr>)\<rparr>"

text \<open>
  The notebook run in order: when the OpenAI \<^verbatim>\<open>main\<close> runs, no cell has imported
  \<^verbatim>\<open>requests\<close> yet. The model asks for one call, with both currencies or with the target
  currency only.
\<close>

definition notebook_order_env :: env where
  "notebook_order_env = one_call_env\<lparr>requests_bound := False\<rparr>"

text \<open>The service answers 200 with a body that is a list.\<close>

definition list_body_env :: env where
  "list_body_env =
     scenario (calling [call_1]) final_message (vcalling [vcall_1])
       (Inr \<lparr>raise_for_status = None, response_json = Inr (JArray [JInt 1, JInt 2])\<rparr>)"

text \<open>A Vertex model whose later responses hold a function call again.\<close>

definition vertex_insisting_env :: env where
  "vertex_insisting_env =
     one_call_env\<lparr>send_message := (\<lambda>k sent. Inr (vcalling [vcall_1]))\<rparr>"

definition name_error_text :: string where
  "name_error_text =
     ''Error fetching exchange rate: name '' @ py_quote ''requests'' @ '' is not defined''"

section \<open>Properties\<close>

subsection \<open>The tool function and the block that calls it\<close>

lemma get_exchange_rate_openai_eq:
  "get_exchange_rate_openai env d f t w =
     (Inr (openai_form env (fetch_openai env (http_calls w) d f t)),
      w\<lparr>events := events w @ Tool_exec d f t # issued env d f t,
        http_calls := http_calls w + length (issued env d f t)\<rparr>)"
  by (cases "requests_bound env")
    (simp_all add: get_exchange_rate_openai_def openai_form_def fetch_openai_def fetch_def
      issued_def Let_def split: sum.splits option.splits)

lemma get_exchange_rate_vertex_eq:
  "get_exchange_rate_vertex env d f t w =
     (Inr (vertex_form (fetch env (http_calls w) d f t)),
      w\<lparr>events := events w @ [Tool_exec d f t,
           Http_get (''https://api.frankfurter.app/'' @ py_str env d) [(''from'', f), (''to'', t)]],
        http_calls := Suc (http_calls w)\<rparr>)"
  by (simp add: get_exchange_rate_vertex_def vertex_form_def fetch_def Let_def
      split: sum.splits option.splits)

lemma execute_openai_object:
  "json_loads env arguments = Inr (JObject kvs) \<Longrightarrow>
   execute_openai env arguments w =
     get_exchange_rate_openai env (args_get kvs ''currency_date'' (JString ''latest''))
       (args_get kvs ''currency_from'' JNull) (args_get kvs ''currency_to'' JNull) w"
  by (simp add: execute_openai_def dict_get_def)

lemma execute_openai_parse_error:
  "json_loads env arguments = Inl e \<Longrightarrow> execute_openai env arguments w = (Inl e, w)"
  by (simp add: execute_openai_def)

lemma execute_openai_cases:
  "(\<exists>e. execute_openai env arguments w = (Inl e, w)) \<or>
   (\<exists>d f t. execute_openai env arguments w = get_exchange_rate_openai env d f t w)"
  by (auto simp add: execute_openai_def dict_get_def split: sum.splits json.splits)

lemma issued_when_bound:
  "requests_bound env \<Longrightarrow>
   issued env d f t =
     [Http_get (''https://api.frankfurter.app/'' @ py_str env d) [(''from'', f), (''to'', t)]]"
  by (simp add: issued_def)

lemma issued_when_unbound: "\<not> requests_bound env \<Longrightarrow> issued env d f t = []"
  by (simp add: issued_def)

text \<open>
  C6. \<^verbatim>\<open>get_exchange_rate\<close>, in both variants, always returns a value and never raises: an
  exception of \<^verbatim>\<open>requests.get\<close> (a network fault, a timeout), of \<^verbatim>\<open>raise_for_status\<close> (the
  status of the response) or of \<^verbatim>\<open>response.json\<close> is caught and returned as a value that
  carries \<^verbatim>\<open>str(e)\<close>: the text \<^verbatim>\<open>Error fetching exchange rate: ...\<close> in the OpenAI variant,
  the dictionary \<^verbatim>\<open>{"error": ...}\<close> in the Vertex variant. When the status check passes and
  the body parses, the payload is returned: serialised by \<^verbatim>\<open>json.dumps\<close> in the OpenAI
  variant, as parsed in the Vertex variant. The OpenAI variant reaches the library only
  when the name \<^verbatim>\<open>requests\<close> is bound; when it is not, the \<^verbatim>\<open>NameError\<close> is caught in the
  same way and returned as the same kind of text.
\<close>

theorem faults_become_values:
  "(\<exists>result w'. get_exchange_rate_openai env d f t w = (Inr result, w')) \<and>
   (\<exists>result w'. get_exchange_rate_vertex env d f t w = (Inr result, w')) \<and>
   (\<not> requests_bound env \<longrightarrow>
      fst (get_exchange_rate_openai env d f t w) =
        Inr (''Error fetching exchange rate: '' @ exn_str (name_error ''requests''))) \<and>
   (requests_get env (http_calls w) (''https://api.frankfurter.app/'' @ py_str env d)
        [(''from'', f), (''to'', t)] = Inl e \<longrightarrow>
      (requests_bound env \<longrightarrow>
         fst (get_exchange_rate_openai env d f t w) =
           Inr (''Error fetching exchange rate: '' @ exn_str e)) \<and>
      fst (get_exchange_rate_vertex env d f t w) =
        Inr (JObject [(''error'', JString (exn_str e))])) \<and>
   (requests_get env (http_calls w) (''https://api.frankfurter.app/'' @ py_str env d)
        [(''from'', f), (''to'', t)] = Inr response \<and>
    raise_for_status response = Some e \<longrightarrow>
      (requests_bound env \<longrightarrow>
         fst (get_exchange_rate_openai env d f t w) =
           Inr (''Error fetching exchange rate: '' @ exn_str e)) \<and>
      fst (get_exchange_rate_vertex env d f t w) =
        Inr (JObject [(''error'', JString (exn_str e))])) \<and>
   (requests_get env (http_calls w) (''https://api.frankfurter.app/'' @ py_str env d)
        [(''from'', f), (''to'', t)] = Inr response \<and>
    raise_for_status response = None \<and> response_json response = Inl e \<longrightarrow>
      (requests_bound env \<longrightarrow>
         fst (get_exchange_rate_openai env d f t w) =
           Inr (''Error fetching exchange rate: '' @ exn_str e)) \<and>
      fst (get_exchange_rate_vertex env d f t w) =
        Inr (JObject [(''error'', JString (exn_str e))])) \<and>
   (requests_get env (http_calls w) (''https://api.frankfurter.app/'' @ py_str env d)
        [(''from'', f), (''to'', t)] = Inr response \<and>
    raise_for_status response = None \<and> response_json response = Inr payload \<longrightarrow>
      (requests_bound env \<longrightarrow>
         fst (get_exchange_rate_openai env d f t w) = Inr (json_dumps env payload)) \<and>
      fst (get_exchange_rate_vertex env d f t w) = Inr payload)"
  by (simp add: get_exchange_rate_openai_eq get_exchange_rate_vertex_eq openai_form_def
      vertex_form_def fetch_openai_def fetch_def)

theorem faults_become_values_witness:
  "fst (get_exchange_rate_openai service_down_env (JString ''latest'') (JString ''USD'')
       (JString ''EUR'') \<lparr>messages = [], events = [], model_calls = 1, http_calls = 0\<rparr>) =
     Inr ''Error fetching exchange rate: connection refused'' \<and>
   fst (get_exchange_rate_vertex service_down_env (JString ''latest'') (JString ''USD'')
       (JString ''EUR'') \<lparr>messages = [], events = [], model_calls = 1, http_calls = 0\<rparr>) =
     Inr (JObject [(''error'', JString ''connection refused'')]) \<and>
   fst (get_exchange_rate_openai not_found_env (JString ''latest'') (JString ''USD'')
       (JString ''EUR'') \<lparr>messages = [], events = [], model_calls = 1, http_calls = 0\<rparr>) =
     Inr (''Error fetching exchange rate: '' @
       ''404 Client Error: Not Found for url: https://api.frankfurter.app/latest?from=USD&to=EUR'') \<and>
   fst (get_exchange_rate_vertex not_found_env (JString ''latest'') (JString ''USD'')
       (JString ''EUR'') \<lparr>messages = [], events = [], model_calls = 1, http_calls = 0\<rparr>) =
     Inr (JObject [(''error'', JString
       ''404 Client Error: Not Found for url: https://api.frankfurter.app/latest?from=USD&to=EUR'')]) \<and>
   fst (get_exchange_rate_openai one_call_env (JString ''latest'') (JString ''USD'')
       (JString ''EUR'') \<lparr>messages = [], events = [], model_calls = 1, http_calls = 0\<rparr>) =
     Inr rates_text \<and>
   fst (get_exchange_rate_vertex one_call_env (JString ''latest'') (JString ''USD'')
       (JString ''EUR'') \<lparr>messages = [], events = [], model_calls = 1, http_calls = 0\<rparr>) =
     Inr rates_payload \<and>
   fst (get_exchange_rate_openai notebook_order_env (JString ''latest'') (JString ''USD'')
       (JString ''EUR'') \<lparr>messages = [], events = [], model_calls = 1, http_calls = 0\<rparr>) =
     Inr name_error_text"
proof -
  let ?w = "\<lparr>messages = [], events = [], model_calls = 1, http_calls = 0\<rparr>"
  have down: "requests_get service_down_env (http_calls ?w)
      (''https://api.frankfurter.app/'' @ py_str service_down_env (JString ''latest''))
      [(''from'', JString ''USD''), (''to'', JString ''EUR'')] =
      Inl (Exn ''ConnectionError'' ''connection refused'')"
    by (simp add: service_down_env_def scenario_def)
  have missing: "requests_get not_found_env (http_calls ?w)
      (''https://api.frankfurter.app/'' @ py_str not_found_env (JString ''latest''))
      [(''from'', JString ''USD''), (''to'', JString ''EUR'')] = Inr not_found_response \<and>
      raise_for_status not_found_response = Some (Exn ''HTTPError''
        ''404 Client Error: Not Found for url: https://api.frankfurter.app/latest?from=USD&to=EUR'')"
    by (simp add: not_found_env_def scenario_def not_found_response_def)
  have fine: "requests_get one_call_env (http_calls ?w)
      (''https://api.frankfurter.app/'' @ py_str one_call_env (JString ''latest''))
      [(''from'', JString ''USD''), (''to'', JString ''EUR'')] = Inr ok_response \<and>
      raise_for_status ok_response = None \<and> response_json ok_response = Inr rates_payload"
    by (simp add: one_call_env_def scenario_def ok_response_def)
  have dumped: "json_dumps one_call_env rates_payload = rates_text"
    by (simp add: one_call_env_def scenario_def table_dumps_def)
  have bound: "requests_bound service_down_env" "requests_bound not_found_env"
      "requests_bound one_call_env" "\<not> requests_bound notebook_order_env"
    by (simp_all add: service_down_env_def not_found_env_def one_call_env_def
        notebook_order_env_def scenario_def)
  have unbound_text: "''Error fetching exchange rate: '' @ exn_str (name_error ''requests'') =
      name_error_text"
    by (simp add: name_error_def name_error_text_def)
  show ?thesis
    using faults_become_values [where env = service_down_env and d = "JString ''latest''"
        and f = "JString ''USD''" and t = "JString ''EUR''" and w = ?w
        and e = "Exn ''ConnectionError'' ''connection refused''"]
      faults_become_values [where env = not_found_env and d = "JString ''latest''"
        and f = "JString ''USD''" and t = "JString ''EUR''" and w = ?w
        and response = not_found_response and e = "Exn ''HTTPError''
        ''404 Client Error: Not Found for url: https://api.frankfurter.app/latest?from=USD&to=EUR''"]
      faults_become_values [where env = one_call_env and d = "JString ''latest''"
        and f = "JString ''USD''" and t = "JString ''EUR''" and w = ?w
        and response = ok_response and payload = rates_payload]
      faults_become_values [where env = notebook_order_env and d = "JString ''latest''"
        and f = "JString ''USD''" and t = "JString ''EUR''" and w = ?w]
      down missing fine dumped bound unbound_text
    by simp
qed

text \<open>
  The block of lines 212--216 on arguments without \<^verbatim>\<open>currency_date\<close>: the call is made with
  the date \<^verbatim>\<open>"latest"\<close>, and what it issues is what \<open>issued\<close> says.
\<close>

lemma default_date_substituted:
  assumes "json_loads env arguments = Inr (JObject kvs)"
    and "map_of kvs ''currency_date'' = None"
  shows "execute_openai env arguments w =
           get_exchange_rate_openai env (JString ''latest'')
             (args_get kvs ''currency_from'' JNull) (args_get kvs ''currency_to'' JNull) w
         \<and> events (snd (execute_openai env arguments w)) =
             events w @
               Tool_exec (JString ''latest'') (args_get kvs ''currency_from'' JNull)
                  (args_get kvs ''currency_to'' JNull) #
               issued env (JString ''latest'') (args_get kvs ''currency_from'' JNull)
                  (args_get kvs ''currency_to'' JNull)"
  using assms
  by (simp add: execute_openai_def dict_get_def args_get_def get_exchange_rate_openai_eq)

text \<open>
  The block of lines 212--216 makes no check of its own: a missing field is passed on as
  \<^verbatim>\<open>None\<close>.
\<close>

lemma missing_field_passed_as_none:
  assumes "json_loads env arguments = Inr (JObject kvs)"
  shows "execute_openai env arguments w =
           get_exchange_rate_openai env (args_get kvs ''currency_date'' (JString ''latest''))
             (case map_of kvs ''currency_from'' of None \<Rightarrow> JNull | Some v \<Rightarrow> v)
             (case map_of kvs ''currency_to'' of None \<Rightarrow> JNull | Some v \<Rightarrow> v) w"
  using execute_openai_object [OF assms] by (simp add: args_get_def)

text \<open>
  C7. The claim asks for the default \<^verbatim>\<open>"latest"\<close> and for exactly one HTTP GET per call.
  With the notebook run in order, the name \<^verbatim>\<open>requests\<close> is unbound when the OpenAI
  \<^verbatim>\<open>get_exchange_rate\<close> runs. On the arguments \<^verbatim>\<open>{"currency_from":"USD","currency_to":"EUR"}\<close>
  the block of lines 212--216 does substitute \<^verbatim>\<open>"latest"\<close> and does call the function, but
  line 122 raises \<^verbatim>\<open>NameError\<close>, the handler returns the error text, and no GET is issued.
  The Vertex block on the same arguments issues the one GET, to the URL ending in
  \<^verbatim>\<open>latest\<close> with \<^verbatim>\<open>from\<close> and \<^verbatim>\<open>to\<close> set.
\<close>

theorem default_date_no_request_in_order:
  "execute_openai notebook_order_env usd_eur_arguments
     \<lparr>messages = [], events = [], model_calls = 1, http_calls = 0\<rparr> =
     (Inr name_error_text,
      \<lparr>messages = [],
       events = [Tool_exec (JString ''latest'') (JString ''USD'') (JString ''EUR'')],
       model_calls = 1, http_calls = 0\<rparr>) \<and>
   events (snd (execute_vertex notebook_order_env usd_eur_args
     \<lparr>messages = [], events = [], model_calls = 1, http_calls = 0\<rparr>)) =
     [Tool_exec (JString ''latest'') (JString ''USD'') (JString ''EUR''),
      Http_get ''https://api.frankfurter.app/latest''
        [(''from'', JString ''USD''), (''to'', JString ''EUR'')]]"
  by code_simp

text \<open>
  C10. The claim: with a required field missing there is no local check, the function is
  called with \<^verbatim>\<open>None\<close> for the field, and the one HTTP request is still issued. With the
  notebook run in order and the arguments \<^verbatim>\<open>{"currency_to":"EUR"}\<close>, the OpenAI block does
  call \<^verbatim>\<open>get_exchange_rate("latest", None, "EUR")\<close> without any check, but the unbound name
  \<^verbatim>\<open>requests\<close> raises \<^verbatim>\<open>NameError\<close> at line 122 and no request is issued. The Vertex block
  on the same arguments issues the one GET, with \<^verbatim>\<open>None\<close> as the value of \<^verbatim>\<open>from\<close>.
\<close>

theorem missing_field_no_request_in_order:
  "execute_openai notebook_order_env eur_only_arguments
     \<lparr>messages = [], events = [], model_calls = 1, http_calls = 0\<rparr> =
     (Inr name_error_text,
      \<lparr>messages = [],
       events = [Tool_exec (JString ''latest'') JNull (JString ''EUR'')],
       model_calls = 1, http_calls = 0\<rparr>) \<and>
   events (snd (execute_vertex notebook_order_env eur_only_args
     \<lparr>messages = [], events = [], model_calls = 1, http_calls = 0\<rparr>)) =
     [Tool_exec (JString ''latest'') JNull (JString ''EUR''),
      Http_get ''https://api.frankfurter.app/latest''
        [(''from'', JNull), (''to'', JString ''EUR'')]]"
  by code_simp

subsection \<open>The loop over the tool calls\<close>

lemma resolve_unregistered:
  "tc_name tc \<noteq> ''get_exchange_rate'' \<Longrightarrow> resolve_tool_call env m tc w = (None, w)"
  by (simp add: resolve_tool_call_def)

lemma resolve_unregistered_vertex:
  "fc_name fc \<noteq> ''get_exchange_rate'' \<Longrightarrow> resolve_function_call env fc w = (None, w)"
  by (simp add: resolve_function_call_def)

lemma resolve_parse_error:
  "tc_name tc = ''get_exchange_rate'' \<Longrightarrow> json_loads env (tc_arguments tc) = Inl e \<Longrightarrow>
   resolve_tool_call env m tc w = (Some e, w)"
  by (simp add: resolve_tool_call_def execute_openai_parse_error)

lemma resolve_tool_call_ok:
  assumes "tc_name tc = ''get_exchange_rate''"
    and "json_loads env (tc_arguments tc) = Inr (JObject kvs)"
    and "result = openai_form env (fetch_openai env (http_calls w)
           (args_get kvs ''currency_date'' (JString ''latest''))
           (args_get kvs ''currency_from'' JNull) (args_get kvs ''currency_to'' JNull))"
    and "chat_create env (model_calls w)
           (followup_request (messages w @ [Message_turn m, tool_turn (tc_id tc) result])) =
         Inr final"
    and "choices final = fm # cs"
  shows "resolve_tool_call env m tc w =
     (None, w\<lparr>messages := messages w @ [Message_turn m, tool_turn (tc_id tc) result],
              events := events w @
                exec_of kvs #
                issued env (args_get kvs ''currency_date'' (JString ''latest''))
                  (args_get kvs ''currency_from'' JNull) (args_get kvs ''currency_to'' JNull) @
                [Model_query (followup_request
                   (messages w @ [Message_turn m, tool_turn (tc_id tc) result])),
                 Print_line ''Final response:'' (content fm)],
              model_calls := Suc (model_calls w),
              http_calls := http_calls w +
                length (issued env (args_get kvs ''currency_date'' (JString ''latest''))
                  (args_get kvs ''currency_from'' JNull) (args_get kvs ''currency_to'' JNull))\<rparr>)"
  using assms
  by (simp add: resolve_tool_call_def execute_openai_object get_exchange_rate_openai_eq
      exec_of_def Let_def)

lemma resolve_function_call_ok:
  assumes "fc_name fc = ''get_exchange_rate''"
    and "result = vertex_form (fetch env (http_calls w)
           (args_get (fc_args fc) ''currency_date'' (JString ''latest''))
           (args_get (fc_args fc) ''currency_from'' JNull)
           (args_get (fc_args fc) ''currency_to'' JNull))"
    and "result = JObject entries"
    and "send_message env (model_calls w) (Function_response ''get_exchange_rate'' result) =
         Inr final"
    and "response_text final = Inr answer"
  shows "resolve_function_call env fc w =
     (None, w\<lparr>events := events w @
                [exec_of (fc_args fc),
                 Http_get (''https://api.frankfurter.app/'' @
                     py_str env (args_get (fc_args fc) ''currency_date'' (JString ''latest'')))
                   [(''from'', args_get (fc_args fc) ''currency_from'' JNull),
                    (''to'', args_get (fc_args fc) ''currency_to'' JNull)],
                 Send_message (Function_response ''get_exchange_rate'' result),
                 Print_line ''Final response:'' (Some answer)],
              model_calls := Suc (model_calls w),
              http_calls := Suc (http_calls w)\<rparr>)"
proof -
  have built: "from_function_response ''get_exchange_rate'' result =
      Inr (Function_response ''get_exchange_rate'' result)"
    using assms(3) by (simp add: from_function_response_def)
  have exec: "execute_vertex env (fc_args fc) w =
      (Inr result,
       w\<lparr>events := events w @
            [exec_of (fc_args fc),
             Http_get (''https://api.frankfurter.app/'' @
                 py_str env (args_get (fc_args fc) ''currency_date'' (JString ''latest'')))
               [(''from'', args_get (fc_args fc) ''currency_from'' JNull),
                (''to'', args_get (fc_args fc) ''currency_to'' JNull)]],
          http_calls := Suc (http_calls w)\<rparr>)"
    using assms(2)
    by (simp add: execute_vertex_def get_exchange_rate_vertex_eq exec_of_def Let_def)
  show ?thesis
    using assms(1,4,5) by (simp add: resolve_function_call_def exec built)
qed

lemma issued_kinds:
  "map event_kind (issued env d f t) = (if requests_bound env then [Http] else [])"
  by (simp add: issued_def)

lemma issued_no_exec: "filter is_exec (issued env d f t) = []"
  by (simp add: issued_def)

lemma resolve_tool_call_shape:
  assumes "tc_name tc = ''get_exchange_rate''"
    and "json_loads env (tc_arguments tc) = Inr (JObject kvs)"
    and "\<forall>k request. 0 < k \<longrightarrow>
           (\<exists>final fm cs. chat_create env k request = Inr final \<and> choices final = fm # cs)"
    and "0 < model_calls w"
  shows "\<exists>w' d f t request body.
           resolve_tool_call env m tc w = (None, w') \<and>
           events w' = events w @
             exec_of kvs # issued env d f t @
             [Model_query request, Print_line ''Final response:'' body] \<and>
           model_calls w' = Suc (model_calls w)"
proof -
  define result where "result = openai_form env (fetch_openai env (http_calls w)
           (args_get kvs ''currency_date'' (JString ''latest''))
           (args_get kvs ''currency_from'' JNull) (args_get kvs ''currency_to'' JNull))"
  obtain final fm cs where
    "chat_create env (model_calls w)
       (followup_request (messages w @ [Message_turn m, tool_turn (tc_id tc) result])) =
     Inr final" and "choices final = fm # cs"
    using assms(3,4) by blast
  from resolve_tool_call_ok [OF assms(1,2) result_def this]
  show ?thesis by auto
qed

lemma tool_loop_shape:
  assumes "\<forall>tc \<in> set tcs. registered tc \<longrightarrow>
             (\<exists>kvs. json_loads env (tc_arguments tc) = Inr (JObject kvs))"
    and "\<forall>k request. 0 < k \<longrightarrow>
           (\<exists>final fm cs. chat_create env k request = Inr final \<and> choices final = fm # cs)"
    and "0 < model_calls w"
  shows "fst (tool_loop_openai env m tcs w) = None \<and>
         map event_kind (events (snd (tool_loop_openai env m tcs w))) =
           map event_kind (events w) @
             concat (map (\<lambda>tc. if requests_bound env then [Exec, Http, Query, Print]
                                else [Exec, Query, Print]) (filter registered tcs)) \<and>
         filter is_exec (events (snd (tool_loop_openai env m tcs w))) =
           filter is_exec (events w) @ concat (map (execs_of env) (filter registered tcs))"
  using assms
proof (induction tcs arbitrary: w)
  case Nil
  then show ?case by simp
next
  case (Cons tc tcs)
  show ?case
  proof (cases "registered tc")
    case False
    then have "resolve_tool_call env m tc w = (None, w)"
      by (simp add: registered_def resolve_unregistered)
    with False Cons show ?thesis by simp
  next
    case True
    then obtain kvs where kvs: "json_loads env (tc_arguments tc) = Inr (JObject kvs)"
      using Cons.prems(1) by auto
    from True have name: "tc_name tc = ''get_exchange_rate''"
      by (simp add: registered_def)
    obtain w' d f t request body where
      step: "resolve_tool_call env m tc w = (None, w')"
      and evs: "events w' = events w @
             exec_of kvs # issued env d f t @
             [Model_query request, Print_line ''Final response:'' body]"
      and calls: "model_calls w' = Suc (model_calls w)"
      using resolve_tool_call_shape [OF name kvs Cons.prems(2,3)] by blast
    have ih: "fst (tool_loop_openai env m tcs w') = None \<and>
         map event_kind (events (snd (tool_loop_openai env m tcs w'))) =
           map event_kind (events w') @
             concat (map (\<lambda>tc. if requests_bound env then [Exec, Http, Query, Print]
                                else [Exec, Query, Print]) (filter registered tcs)) \<and>
         filter is_exec (events (snd (tool_loop_openai env m tcs w'))) =
           filter is_exec (events w') @ concat (map (execs_of env) (filter registered tcs))"
      using Cons.IH [of w'] Cons.prems(1,2) calls by simp
    have ex: "execs_of env tc = [exec_of kvs]"
      using kvs by (simp add: execs_of_def)
    show ?thesis
      using True step ih evs ex by (simp add: exec_of_def issued_kinds issued_no_exec)
  qed
qed

text \<open>
  C1 (as the code has it). Let the first completion hold the tool calls \<open>tcs\<close>, at least
  one, let the arguments of every call named \<^verbatim>\<open>get_exchange_rate\<close> parse to a dictionary,
  and let every later completion arrive with a choice. Then \<^verbatim>\<open>main\<close> ends without an
  exception, the calls named \<^verbatim>\<open>get_exchange_rate\<close> are executed in the order of the
  response (the others are skipped), and each execution is followed at once by its own
  follow-up query and its \<^verbatim>\<open>print\<close>, before the next call is looked at: the run has the
  shape query, then (execution, HTTP request, query, print) once per executed call, the
  HTTP request being there when the name \<^verbatim>\<open>requests\<close> is bound. There are as many follow-up
  queries as executed calls, not one for the batch.
\<close>

theorem followup_after_each_call:
  assumes "chat_create env 0 (first_request ms) = Inr completion"
    and "choices completion = m # others"
    and "tool_calls m = Some tcs"
    and "tcs \<noteq> []"
    and "\<forall>tc \<in> set tcs. registered tc \<longrightarrow>
           (\<exists>kvs. json_loads env (tc_arguments tc) = Inr (JObject kvs))"
    and "\<forall>k request. 0 < k \<longrightarrow>
           (\<exists>final fm cs. chat_create env k request = Inr final \<and> choices final = fm # cs)"
  shows "fst (main_openai env q ms) = None \<and>
         map event_kind (events (snd (main_openai env q ms))) =
           Query # concat (map (\<lambda>tc. if requests_bound env then [Exec, Http, Query, Print]
                                       else [Exec, Query, Print]) (filter registered tcs)) \<and>
         filter is_exec (events (snd (main_openai env q ms))) =
           concat (map (execs_of env) (filter registered tcs))"
proof -
  let ?w1 = "\<lparr>messages = ms, events = [Model_query (first_request ms)],
              model_calls = Suc 0, http_calls = 0\<rparr>"
  obtain tc rest where tcs: "tcs = tc # rest"
    using assms(4) by (cases tcs) auto
  have main: "main_openai env q ms = tool_loop_openai env m tcs ?w1"
    using assms(1,2,3) tcs by (simp add: main_openai_def)
  have "0 < model_calls ?w1" by simp
  from tool_loop_shape [OF assms(5,6) this, of m] main
  show ?thesis by simp
qed

theorem followup_after_each_call_witness:
  "fst (main_openai two_calls_env ''100 usd to eur'' [user_turn ''100 usd to eur'']) = None \<and>
   map event_kind (events (snd (main_openai two_calls_env ''100 usd to eur''
       [user_turn ''100 usd to eur'']))) =
     [Query, Exec, Http, Query, Print, Exec, Http, Query, Print] \<and>
   filter is_exec (events (snd (main_openai two_calls_env ''100 usd to eur''
       [user_turn ''100 usd to eur'']))) =
     [Tool_exec (JString ''latest'') (JString ''USD'') (JString ''EUR''),
      Tool_exec (JString ''latest'') (JString ''USD'') (JString ''GBP'')]"
proof -
  let ?ms = "[user_turn ''100 usd to eur'']"
  have first: "chat_create two_calls_env 0 (first_request ?ms) =
      Inr \<lparr>choices = [calling [call_1, call_2]]\<rparr>"
    by (simp add: two_calls_env_def scenario_def)
  have choice: "choices \<lparr>choices = [calling [call_1, call_2]]\<rparr> = calling [call_1, call_2] # []"
    by simp
  have calls: "tool_calls (calling [call_1, call_2]) = Some [call_1, call_2]"
    by (simp add: calling_def)
  have some: "[call_1, call_2] \<noteq> []" by simp
  have parse: "\<forall>tc \<in> set [call_1, call_2]. registered tc \<longrightarrow>
           (\<exists>kvs. json_loads two_calls_env (tc_arguments tc) = Inr (JObject kvs))"
    by (simp add: two_calls_env_def scenario_def call_1_def call_2_def table_loads_def
        usd_eur_arguments_def usd_gbp_arguments_def)
  have later: "\<forall>k request. 0 < k \<longrightarrow>
           (\<exists>final fm cs. chat_create two_calls_env k request = Inr final \<and>
              choices final = fm # cs)"
    by (simp add: two_calls_env_def scenario_def)
  have regs: "registered call_1" "registered call_2"
    by (simp_all add: registered_def call_1_def call_2_def)
  have bound: "requests_bound two_calls_env"
    by (simp add: two_calls_env_def scenario_def)
  have ex1: "execs_of two_calls_env call_1 =
      [Tool_exec (JString ''latest'') (JString ''USD'') (JString ''EUR'')]"
    by code_simp
  have ex2: "execs_of two_calls_env call_2 =
      [Tool_exec (JString ''latest'') (JString ''USD'') (JString ''GBP'')]"
    by code_simp
  show ?thesis
    using followup_after_each_call [OF first choice calls some parse later, of "''100 usd to eur''"]
    by (simp add: regs ex1 ex2 bound)
qed

text \<open>
  C1 as stated fails for a response with two calls: only one of the two is executed before
  the first follow-up query, and two follow-up queries are sent.
\<close>

theorem batch_before_followup_counterexample:
  "length (first_tool_calls two_calls_env [user_turn ''100 usd to eur'']) = 2 \<and>
   exec_count (before_followup (events (snd (main_openai two_calls_env ''100 usd to eur''
     [user_turn ''100 usd to eur''])))) = 1 \<and>
   followup_count (events (snd (main_openai two_calls_env ''100 usd to eur''
     [user_turn ''100 usd to eur'']))) = 2"
  by code_simp

text \<open>
  C4 (as the code has it). A tool call whose name is not \<^verbatim>\<open>get_exchange_rate\<close> is passed
  over by the test of line 211 (line 428 in the Vertex variant): nothing is executed,
  nothing is appended to \<^verbatim>\<open>messages\<close>, no query is sent, nothing is printed and no
  exception is raised; the loop goes on with the next call.
\<close>

theorem unknown_tool_skipped:
  assumes "tc_name tc \<noteq> ''get_exchange_rate''"
    and "fc_name fc \<noteq> ''get_exchange_rate''"
  shows "resolve_tool_call env m tc w = (None, w) \<and>
         tool_loop_openai env m (tc # rest) w = tool_loop_openai env m rest w \<and>
         resolve_function_call env fc w = (None, w) \<and>
         tool_loop_vertex env (fc # more_calls) w = tool_loop_vertex env more_calls w"
  using assms by (simp add: resolve_unregistered resolve_unregistered_vertex)

theorem unknown_tool_skipped_witness:
  "resolve_tool_call one_call_env (calling [unknown_call]) unknown_call
     \<lparr>messages = [], events = [], model_calls = 1, http_calls = 0\<rparr> =
     (None, \<lparr>messages = [], events = [], model_calls = 1, http_calls = 0\<rparr>) \<and>
   tool_loop_openai one_call_env (calling [unknown_call]) [unknown_call]
     \<lparr>messages = [], events = [], model_calls = 1, http_calls = 0\<rparr> =
     (None, \<lparr>messages = [], events = [], model_calls = 1, http_calls = 0\<rparr>) \<and>
   tool_loop_vertex one_call_env [\<lparr>fc_name = ''unknown_tool'', fc_args = []\<rparr>]
     \<lparr>messages = [], events = [], model_calls = 1, http_calls = 0\<rparr> =
     (None, \<lparr>messages = [], events = [], model_calls = 1, http_calls = 0\<rparr>)"
proof -
  have "tc_name unknown_call \<noteq> ''get_exchange_rate''"
    by (simp add: unknown_call_def)
  moreover have "fc_name \<lparr>fc_name = ''unknown_tool'', fc_args = []\<rparr> \<noteq> ''get_exchange_rate''"
    by simp
  ultimately show ?thesis
    using unknown_tool_skipped [of unknown_call "\<lparr>fc_name = ''unknown_tool'', fc_args = []\<rparr>"
      one_call_env "calling [unknown_call]"
      "\<lparr>messages = [], events = [], model_calls = 1, http_calls = 0\<rparr>" "[]" "[]"]
    by simp
qed

text \<open>
  C4 as stated fails: after a response whose only call names \<^verbatim>\<open>unknown_tool\<close>, \<^verbatim>\<open>main\<close>
  returns with the transcript as it was. No turn carrying a failure was appended, and the
  model is not asked again.
\<close>

theorem unknown_tool_failure_counterexample:
  "main_openai (scenario (calling [unknown_call]) final_message (vcalling []) (Inr ok_response))
     ''100 usd to eur'' [user_turn ''100 usd to eur''] =
   (None, \<lparr>messages = [user_turn ''100 usd to eur''],
           events = [Model_query (first_request [user_turn ''100 usd to eur''])],
           model_calls = 1, http_calls = 0\<rparr>)"
  by code_simp

text \<open>
  C5 (as the code has it). When \<^verbatim>\<open>json.loads\<close> raises on the arguments of a call named
  \<^verbatim>\<open>get_exchange_rate\<close>, the exception leaves the block of lines 212--216, the loop body
  and the loop: the state is unchanged (no execution, no turn, no query), and the calls
  that come after in the response are not processed.
\<close>

theorem parse_fault_propagates:
  assumes "tc_name tc = ''get_exchange_rate''"
    and "json_loads env (tc_arguments tc) = Inl e"
  shows "execute_openai env (tc_arguments tc) w = (Inl e, w) \<and>
         resolve_tool_call env m tc w = (Some e, w) \<and>
         tool_loop_openai env m (tc # rest) w = (Some e, w)"
  using assms by (simp add: execute_openai_parse_error resolve_parse_error)

theorem parse_fault_propagates_witness:
  "execute_openai one_call_env ''not json''
     \<lparr>messages = [], events = [], model_calls = 1, http_calls = 0\<rparr> =
     (Inl (Exn ''JSONDecodeError'' ''Expecting value: line 1 column 1 (char 0)''),
      \<lparr>messages = [], events = [], model_calls = 1, http_calls = 0\<rparr>) \<and>
   tool_loop_openai one_call_env (calling [bad_call, call_1]) [bad_call, call_1]
     \<lparr>messages = [], events = [], model_calls = 1, http_calls = 0\<rparr> =
     (Some (Exn ''JSONDecodeError'' ''Expecting value: line 1 column 1 (char 0)''),
      \<lparr>messages = [], events = [], model_calls = 1, http_calls = 0\<rparr>)"
proof -
  have name: "tc_name bad_call = ''get_exchange_rate''"
    by (simp add: bad_call_def)
  have fault: "json_loads one_call_env (tc_arguments bad_call) =
      Inl (Exn ''JSONDecodeError'' ''Expecting value: line 1 column 1 (char 0)'')"
    by (simp add: bad_call_def one_call_env_def scenario_def table_loads_def
        usd_eur_arguments_def usd_gbp_arguments_def eur_only_arguments_def)
  have args: "tc_arguments bad_call = ''not json''"
    by (simp add: bad_call_def)
  from parse_fault_propagates [OF name fault, of
      "\<lparr>messages = [], events = [], model_calls = 1, http_calls = 0\<rparr>"
      "calling [bad_call, call_1]" "[call_1]"]
  show ?thesis by (simp add: args)
qed

text \<open>
  C5 as stated fails: with the arguments \<^verbatim>\<open>not json\<close> the parse fault leaves \<^verbatim>\<open>main\<close>
  uncaught, and no failure value reaches the transcript.
\<close>

theorem invalid_arguments_counterexample:
  "main_openai (scenario (calling [bad_call]) final_message (vcalling []) (Inr ok_response))
     ''100 usd to eur'' [user_turn ''100 usd to eur''] =
   (Some (Exn ''JSONDecodeError'' ''Expecting value: line 1 column 1 (char 0)''),
    \<lparr>messages = [user_turn ''100 usd to eur''],
     events = [Model_query (first_request [user_turn ''100 usd to eur''])],
     model_calls = 1, http_calls = 0\<rparr>)"
  by code_simp

text \<open>
  C2 (as the code has it). Let the first completion hold exactly one tool call, named
  \<^verbatim>\<open>get_exchange_rate\<close>, whose arguments parse to a dictionary, and let the follow-up
  completion arrive with a choice. Then \<^verbatim>\<open>main\<close> of the OpenAI variant executes the tool
  exactly once, appends the assistant's message and exactly one tool turn, tagged with the
  call's id and carrying the result, sends exactly one follow-up query with that
  transcript, prints the content of its first choice and ends without an exception. The
  HTTP request is among the events when the name \<^verbatim>\<open>requests\<close> is bound.
\<close>

theorem single_call_round:
  assumes "chat_create env 0 (first_request ms) = Inr completion"
    and "choices completion = m # others"
    and "tool_calls m = Some [tc]"
    and "tc_name tc = ''get_exchange_rate''"
    and "json_loads env (tc_arguments tc) = Inr (JObject kvs)"
    and "result = openai_form env (fetch_openai env 0
           (args_get kvs ''currency_date'' (JString ''latest''))
           (args_get kvs ''currency_from'' JNull) (args_get kvs ''currency_to'' JNull))"
    and "chat_create env 1
           (followup_request (ms @ [Message_turn m, tool_turn (tc_id tc) result])) = Inr final"
    and "choices final = fm # cs"
  shows "main_openai env q ms =
           (None,
            \<lparr>messages = ms @ [Message_turn m, tool_turn (tc_id tc) result],
             events =
               Model_query (first_request ms) #
               exec_of kvs #
               (if requests_bound env
                then [Http_get (''https://api.frankfurter.app/'' @
                          py_str env (args_get kvs ''currency_date'' (JString ''latest'')))
                        [(''from'', args_get kvs ''currency_from'' JNull),
                         (''to'', args_get kvs ''currency_to'' JNull)]]
                else []) @
               [Model_query (followup_request
                  (ms @ [Message_turn m, tool_turn (tc_id tc) result])),
                Print_line ''Final response:'' (content fm)],
             model_calls = 2,
             http_calls = (if requests_bound env then 1 else 0)\<rparr>)
         \<and> exec_count (events (snd (main_openai env q ms))) = 1
         \<and> followup_count (events (snd (main_openai env q ms))) = 1"
proof -
  let ?w1 = "\<lparr>messages = ms, events = [Model_query (first_request ms)],
              model_calls = Suc 0, http_calls = 0\<rparr>"
  let ?d = "args_get kvs ''currency_date'' (JString ''latest'')"
  let ?f = "args_get kvs ''currency_from'' JNull"
  let ?t = "args_get kvs ''currency_to'' JNull"
  have main: "main_openai env q ms = tool_loop_openai env m [tc] ?w1"
    using assms(1,2,3) by (simp add: main_openai_def)
  have step: "resolve_tool_call env m tc ?w1 =
     (None, ?w1\<lparr>messages := messages ?w1 @ [Message_turn m, tool_turn (tc_id tc) result],
              events := events ?w1 @
                exec_of kvs # issued env ?d ?f ?t @
                [Model_query (followup_request
                   (messages ?w1 @ [Message_turn m, tool_turn (tc_id tc) result])),
                 Print_line ''Final response:'' (content fm)],
              model_calls := Suc (model_calls ?w1),
              http_calls := http_calls ?w1 + length (issued env ?d ?f ?t)\<rparr>)"
    by (rule resolve_tool_call_ok [OF assms(4,5), of result ?w1 m final fm cs])
      (use assms(6,7,8) in simp_all)
  show ?thesis
    using main step
    by (simp add: exec_count_def followup_count_def exec_of_def issued_def)
qed

theorem single_call_round_witness:
  "main_openai one_call_env ''100 usd to eur'' [user_turn ''100 usd to eur''] =
     (None,
      \<lparr>messages = [user_turn ''100 usd to eur'', Message_turn (calling [call_1]),
                   tool_turn ''call_1'' rates_text],
       events =
         [Model_query (first_request [user_turn ''100 usd to eur'']),
          Tool_exec (JString ''latest'') (JString ''USD'') (JString ''EUR''),
          Http_get ''https://api.frankfurter.app/latest''
            [(''from'', JString ''USD''), (''to'', JString ''EUR'')],
          Model_query (followup_request
            [user_turn ''100 usd to eur'', Message_turn (calling [call_1]),
             tool_turn ''call_1'' rates_text]),
          Print_line ''Final response:'' (Some final_text)],
       model_calls = 2, http_calls = 1\<rparr>)"
proof -
  let ?ms = "[user_turn ''100 usd to eur'']"
  have first: "chat_create one_call_env 0 (first_request ?ms) =
      Inr \<lparr>choices = [calling [call_1]]\<rparr>"
    by (simp add: one_call_env_def scenario_def)
  have choice: "choices \<lparr>choices = [calling [call_1]]\<rparr> = calling [call_1] # []"
    by simp
  have calls: "tool_calls (calling [call_1]) = Some [call_1]"
    by (simp add: calling_def)
  have name: "tc_name call_1 = ''get_exchange_rate''"
    by (simp add: call_1_def)
  have parsed: "json_loads one_call_env (tc_arguments call_1) = Inr (JObject usd_eur_args)"
    by (simp add: one_call_env_def scenario_def table_loads_def call_1_def)
  have outcome: "rates_text = openai_form one_call_env (fetch_openai one_call_env 0
           (args_get usd_eur_args ''currency_date'' (JString ''latest''))
           (args_get usd_eur_args ''currency_from'' JNull)
           (args_get usd_eur_args ''currency_to'' JNull))"
    by code_simp
  have later: "chat_create one_call_env 1
         (followup_request (?ms @ [Message_turn (calling [call_1]),
            tool_turn (tc_id call_1) rates_text])) = Inr \<lparr>choices = [final_message]\<rparr>"
    by (simp add: one_call_env_def scenario_def)
  have choice': "choices \<lparr>choices = [final_message]\<rparr> = final_message # []"
    by simp
  have kvs: "exec_of usd_eur_args =
      Tool_exec (JString ''latest'') (JString ''USD'') (JString ''EUR'')"
    by code_simp
  have date: "args_get usd_eur_args ''currency_date'' (JString ''latest'') = JString ''latest''"
    by code_simp
  have source: "args_get usd_eur_args ''currency_from'' JNull = JString ''USD''"
    by code_simp
  have target: "args_get usd_eur_args ''currency_to'' JNull = JString ''EUR''"
    by code_simp
  have id: "tc_id call_1 = ''call_1''"
    by (simp add: call_1_def)
  have bound: "requests_bound one_call_env"
    by (simp add: one_call_env_def scenario_def)
  show ?thesis
    using single_call_round [OF first choice calls name parsed outcome later choice',
        of "''100 usd to eur''"]
    by (simp add: kvs id date source target bound final_message_def py_str_def)
qed

text \<open>
  C2 as stated fails when the single call for the registered tool carries arguments
  that \<^verbatim>\<open>json.loads\<close> rejects: nothing is executed, no tool turn is appended and no
  follow-up query is sent.
\<close>

theorem one_call_unparsed_counterexample:
  "exec_count (events (snd (main_openai
      (scenario (calling [bad_call]) final_message (vcalling []) (Inr ok_response))
      ''100 usd to eur'' [user_turn ''100 usd to eur'']))) = 0 \<and>
   followup_count (events (snd (main_openai
      (scenario (calling [bad_call]) final_message (vcalling []) (Inr ok_response))
      ''100 usd to eur'' [user_turn ''100 usd to eur'']))) = 0 \<and>
   messages (snd (main_openai
      (scenario (calling [bad_call]) final_message (vcalling []) (Inr ok_response))
      ''100 usd to eur'' [user_turn ''100 usd to eur''])) = [user_turn ''100 usd to eur''] \<and>
   registered bad_call \<and>
   first_tool_calls (scenario (calling [bad_call]) final_message (vcalling []) (Inr ok_response))
      [user_turn ''100 usd to eur''] = [bad_call]"
  by code_simp

text \<open>
  The Vertex variant on one call whose result is a mapping: one execution, one function
  response named after the tool (there is no call id), one follow-up message, its text
  printed.
\<close>

lemma vertex_single_call:
  assumes "send_message env 0 (User_text q) = Inr response"
    and "candidates response = cand # cands"
    and "function_calls cand = [fc]"
    and "fc_name fc = ''get_exchange_rate''"
    and "result = vertex_form (fetch env 0
           (args_get (fc_args fc) ''currency_date'' (JString ''latest''))
           (args_get (fc_args fc) ''currency_from'' JNull)
           (args_get (fc_args fc) ''currency_to'' JNull))"
    and "result = JObject entries"
    and "send_message env 1 (Function_response ''get_exchange_rate'' result) = Inr final"
    and "response_text final = Inr answer"
  shows "main_vertex env q =
           (None,
            \<lparr>messages = [],
             events =
               [Send_message (User_text q),
                exec_of (fc_args fc),
                Http_get (''https://api.frankfurter.app/'' @
                    py_str env (args_get (fc_args fc) ''currency_date'' (JString ''latest'')))
                  [(''from'', args_get (fc_args fc) ''currency_from'' JNull),
                   (''to'', args_get (fc_args fc) ''currency_to'' JNull)],
                Send_message (Function_response ''get_exchange_rate'' result),
                Print_line ''Final response:'' (Some answer)],
             model_calls = 2, http_calls = 1\<rparr>)"
proof -
  let ?w1 = "\<lparr>messages = [], events = [Send_message (User_text q)],
              model_calls = Suc 0, http_calls = 0\<rparr>"
  have main: "main_vertex env q = tool_loop_vertex env [fc] ?w1"
    using assms(1,2,3) by (simp add: main_vertex_def)
  have step: "resolve_function_call env fc ?w1 =
     (None, ?w1\<lparr>events := events ?w1 @
                [exec_of (fc_args fc),
                 Http_get (''https://api.frankfurter.app/'' @
                     py_str env (args_get (fc_args fc) ''currency_date'' (JString ''latest'')))
                   [(''from'', args_get (fc_args fc) ''currency_from'' JNull),
                    (''to'', args_get (fc_args fc) ''currency_to'' JNull)],
                 Send_message (Function_response ''get_exchange_rate'' result),
                 Print_line ''Final response:'' (Some answer)],
              model_calls := Suc (model_calls ?w1),
              http_calls := Suc (http_calls ?w1)\<rparr>)"
    by (rule resolve_function_call_ok [OF assms(4), of result env ?w1 entries final answer])
      (use assms(5,6,7,8) in simp_all)
  show ?thesis
    using main step by simp
qed

subsection \<open>The transcript\<close>

text \<open>
  C3. The claim asks for the user's text as a user turn in the transcript before the first
  request. \<^verbatim>\<open>main\<close> of the OpenAI variant reads the text into \<^verbatim>\<open>user_query\<close> and never uses
  it: for the query \<^verbatim>\<open>100 usd to eur\<close> and a list \<^verbatim>\<open>messages\<close> that holds a system turn,
  the first request carries the system turn alone, and the transcript at the end holds the
  system turn, the assistant's message and the tool turn, with no user turn anywhere.
\<close>

theorem user_query_never_sent:
  "events (snd (main_openai one_call_env ''100 usd to eur'' [system_turn])) ! 0 =
     Model_query (first_request [system_turn]) \<and>
   messages (snd (main_openai one_call_env ''100 usd to eur'' [system_turn])) =
     [system_turn, Message_turn (calling [call_1]), tool_turn ''call_1'' rates_text]"
  by code_simp

text \<open>The run of the OpenAI variant does not depend on what the user typed.\<close>

lemma main_openai_ignores_query: "main_openai env q ms = main_openai env q' ms"
  by (simp add: main_openai_def)

lemma resolve_tool_call_appends:
  "\<exists>added. messages (snd (resolve_tool_call env m tc w)) = messages w @ added"
  using execute_openai_cases [of env "tc_arguments tc" w]
  by (auto simp add: resolve_tool_call_def get_exchange_rate_openai_eq Let_def
      split: sum.splits list.splits)

lemma tool_loop_openai_appends:
  "\<exists>added. messages (snd (tool_loop_openai env m tcs w)) = messages w @ added"
proof (induction tcs arbitrary: w)
  case Nil
  then show ?case by simp
next
  case (Cons tc tcs)
  obtain r w' where step: "resolve_tool_call env m tc w = (r, w')"
    by (cases "resolve_tool_call env m tc w")
  obtain a where a: "messages w' = messages w @ a"
    using resolve_tool_call_appends [of env m tc w] step by auto
  obtain b where b: "messages (snd (tool_loop_openai env m tcs w')) = messages w' @ b"
    using Cons.IH [of w'] by auto
  show ?case
    using step a b by (cases r) auto
qed

text \<open>The list \<^verbatim>\<open>messages\<close> only grows: what was there at the start stays, in place.\<close>

lemma main_openai_appends:
  "\<exists>added. messages (snd (main_openai env q ms)) = ms @ added"
proof -
  let ?w1 = "\<lparr>messages = ms, events = [Model_query (first_request ms)],
              model_calls = Suc 0, http_calls = 0\<rparr>"
  have "\<exists>added. messages (snd (tool_loop_openai env m tcs ?w1)) = ms @ added" for m tcs
    using tool_loop_openai_appends [of env m tcs ?w1] by simp
  then show ?thesis
    by (simp add: main_openai_def Let_def del: tool_loop_openai.simps
        split: sum.splits list.splits option.splits)
qed

subsection \<open>Later responses\<close>

lemma erased_fields:
  "requests_bound (later_calls_erased env) = requests_bound env"
  "requests_get (later_calls_erased env) = requests_get env"
  "json_loads (later_calls_erased env) = json_loads env"
  "json_dumps (later_calls_erased env) = json_dumps env"
  "str_other (later_calls_erased env) = str_other env"
  by (simp_all add: later_calls_erased_def)

lemma py_str_erased: "py_str (later_calls_erased env) v = py_str env v"
  by (cases v) (simp_all add: py_str_def erased_fields)

lemma fetch_openai_erased:
  "fetch_openai (later_calls_erased env) k d f t = fetch_openai env k d f t"
  by (simp add: fetch_openai_def fetch_def erased_fields py_str_erased)

lemma issued_erased: "issued (later_calls_erased env) d f t = issued env d f t"
  by (simp add: issued_def erased_fields py_str_erased)

lemma openai_form_erased: "openai_form (later_calls_erased env) outcome = openai_form env outcome"
  by (cases outcome) (simp_all add: openai_form_def erased_fields)

lemma get_exchange_rate_openai_erased:
  "get_exchange_rate_openai (later_calls_erased env) d f t w =
   get_exchange_rate_openai env d f t w"
  by (simp add: get_exchange_rate_openai_eq fetch_openai_erased openai_form_erased
      issued_erased)

lemma execute_openai_erased:
  "execute_openai (later_calls_erased env) arguments w = execute_openai env arguments w"
  by (simp add: execute_openai_def get_exchange_rate_openai_erased erased_fields
      split: sum.splits)

lemma resolve_tool_call_erased:
  assumes "0 < model_calls w"
  shows "resolve_tool_call (later_calls_erased env) m tc w = resolve_tool_call env m tc w"
proof -
  consider e where "execute_openai env (tc_arguments tc) w = (Inl e, w)"
    | d f t where "execute_openai env (tc_arguments tc) w = get_exchange_rate_openai env d f t w"
    using execute_openai_cases by blast
  then show ?thesis
  proof cases
    case 1
    then show ?thesis
      by (simp add: resolve_tool_call_def execute_openai_erased)
  next
    case 2
    have later: "chat_create (later_calls_erased env) (model_calls w) request =
        map_sum id no_calls (chat_create env (model_calls w) request)" for request
      using assms by (simp add: later_calls_erased_def)
    show ?thesis
      using 2 assms
      by (cases "chat_create env (model_calls w) (followup_request
            (messages w @ [Message_turn m, tool_turn (tc_id tc)
               (openai_form env (fetch_openai env (http_calls w) d f t))]))")
        (auto simp add: resolve_tool_call_def execute_openai_erased get_exchange_rate_openai_eq
          later no_calls_def Let_def split: list.splits)
  qed
qed

lemma resolve_tool_call_model_calls:
  "model_calls w \<le> model_calls (snd (resolve_tool_call env m tc w))"
  using execute_openai_cases [of env "tc_arguments tc" w]
  by (auto simp add: resolve_tool_call_def get_exchange_rate_openai_eq Let_def
      split: sum.splits list.splits)

lemma tool_loop_openai_erased:
  "0 < model_calls w \<Longrightarrow>
   tool_loop_openai (later_calls_erased env) m tcs w = tool_loop_openai env m tcs w"
proof (induction tcs arbitrary: w)
  case Nil
  then show ?case by simp
next
  case (Cons tc tcs)
  obtain r w' where step: "resolve_tool_call env m tc w = (r, w')"
    by (cases "resolve_tool_call env m tc w")
  have "model_calls w \<le> model_calls w'"
    using resolve_tool_call_model_calls [of w env m tc] step by simp
  with Cons.prems have "0 < model_calls w'" by simp
  with Cons.IH [of w'] step Cons.prems show ?case
    by (simp add: resolve_tool_call_erased split: option.splits)
qed

lemma main_openai_erased: "main_openai (later_calls_erased env) q ms = main_openai env q ms"
proof -
  have first: "chat_create (later_calls_erased env) 0 request = chat_create env 0 request"
    for request
    by (simp add: later_calls_erased_def)
  show ?thesis
    by (simp add: main_openai_def first tool_loop_openai_erased Let_def
        del: tool_loop_openai.simps split: sum.splits list.splits option.splits)
qed

lemma resolve_tool_call_counts:
  "\<exists>n. n \<le> (if registered tc then 1 else 0) \<and>
       exec_count (events (snd (resolve_tool_call env m tc w))) = exec_count (events w) + n \<and>
       length (filter is_query (events (snd (resolve_tool_call env m tc w)))) =
         length (filter is_query (events w)) + n"
proof (cases "registered tc")
  case False
  then show ?thesis
    by (simp add: registered_def resolve_unregistered)
next
  case True
  consider e where "execute_openai env (tc_arguments tc) w = (Inl e, w)"
    | d f t where "execute_openai env (tc_arguments tc) w = get_exchange_rate_openai env d f t w"
    using execute_openai_cases by blast
  then show ?thesis
  proof cases
    case 1
    then show ?thesis
      by (simp add: resolve_tool_call_def)
  next
    case 2
    then have "exec_count (events (snd (resolve_tool_call env m tc w))) =
          exec_count (events w) + 1 \<and>
        length (filter is_query (events (snd (resolve_tool_call env m tc w)))) =
          length (filter is_query (events w)) + 1"
      using True
      by (simp add: resolve_tool_call_def registered_def get_exchange_rate_openai_eq
          exec_count_def issued_def Let_def split: sum.splits list.splits)
    with True show ?thesis by auto
  qed
qed

lemma tool_loop_openai_counts:
  "\<exists>n. n \<le> length (filter registered tcs) \<and>
       exec_count (events (snd (tool_loop_openai env m tcs w))) = exec_count (events w) + n \<and>
       length (filter is_query (events (snd (tool_loop_openai env m tcs w)))) =
         length (filter is_query (events w)) + n"
proof (induction tcs arbitrary: w)
  case Nil
  then show ?case by simp
next
  case (Cons tc tcs)
  obtain r w' where step: "resolve_tool_call env m tc w = (r, w')"
    by (cases "resolve_tool_call env m tc w")
  obtain n where n: "n \<le> (if registered tc then 1 else 0)"
      "exec_count (events w') = exec_count (events w) + n"
      "length (filter is_query (events w')) = length (filter is_query (events w)) + n"
    using resolve_tool_call_counts [of tc env m w] step by auto
  show ?case
  proof (cases r)
    case (Some e)
    with step n show ?thesis
      by (intro exI [of _ n]) (auto split: if_splits)
  next
    case None
    obtain k where k: "k \<le> length (filter registered tcs)"
        "exec_count (events (snd (tool_loop_openai env m tcs w'))) = exec_count (events w') + k"
        "length (filter is_query (events (snd (tool_loop_openai env m tcs w')))) =
           length (filter is_query (events w')) + k"
      using Cons.IH [of w'] by auto
    with None step n show ?thesis
      by (intro exI [of _ "n + k"]) (auto split: if_splits)
  qed
qed

lemma main_openai_counts:
  "exec_count (events (snd (main_openai env q ms))) \<le>
     length (filter registered (first_tool_calls env ms)) \<and>
   followup_count (events (snd (main_openai env q ms))) =
     exec_count (events (snd (main_openai env q ms)))"
proof -
  let ?w1 = "\<lparr>messages = ms, events = [Model_query (first_request ms)],
              model_calls = Suc 0, http_calls = 0\<rparr>"
  have loop: "exec_count (events (snd (tool_loop_openai env m tcs ?w1))) \<le>
        length (filter registered tcs) \<and>
      followup_count (events (snd (tool_loop_openai env m tcs ?w1))) =
        exec_count (events (snd (tool_loop_openai env m tcs ?w1)))" for m tcs
    using tool_loop_openai_counts [of tcs env m ?w1]
    by (auto simp add: followup_count_def exec_count_def)
  have direct: "exec_count [Model_query r, Print_line l c] = 0"
      "followup_count [Model_query r, Print_line l c] = 0"
      "exec_count [Model_query r] = 0" "followup_count [Model_query r] = 0" for r l c
    by (simp_all add: exec_count_def followup_count_def)
  show ?thesis
    by (simp add: main_openai_def first_tool_calls_def Let_def loop direct
        del: tool_loop_openai.simps filter.simps
        split: sum.splits list.splits option.splits)
qed

text \<open>
  C8 (as the code has it, for the OpenAI variant). No completion after the first is
  inspected for tool calls: erasing every tool-call request from every later completion
  leaves the run as it was. Every execution comes from the list of the first completion:
  at most as many calls are executed as the first completion holds calls named
  \<^verbatim>\<open>get_exchange_rate\<close>, and exactly one follow-up query is sent per execution.
\<close>

theorem later_responses_not_inspected:
  "main_openai (later_calls_erased env) q ms = main_openai env q ms \<and>
   exec_count (events (snd (main_openai env q ms))) \<le>
     length (filter registered (first_tool_calls env ms)) \<and>
   followup_count (events (snd (main_openai env q ms))) =
     exec_count (events (snd (main_openai env q ms)))"
  using main_openai_counts [of env q ms]
  by (simp add: main_openai_erased)

theorem later_responses_not_inspected_witness:
  "main_openai (later_calls_erased insisting_env) ''100 usd to eur'' [] =
     main_openai insisting_env ''100 usd to eur'' [] \<and>
   exec_count (events (snd (main_openai insisting_env ''100 usd to eur'' []))) = 1 \<and>
   followup_count (events (snd (main_openai insisting_env ''100 usd to eur'' []))) = 1 \<and>
   first_tool_calls insisting_env [] = [call_1] \<and>
   chat_create insisting_env 1 (followup_request []) = Inr \<lparr>choices = [calling [call_1]]\<rparr>"
proof -
  have again: "chat_create insisting_env 1 (followup_request []) =
      Inr \<lparr>choices = [calling [call_1]]\<rparr>"
    by (simp add: insisting_env_def)
  have n: "exec_count (events (snd (main_openai insisting_env ''100 usd to eur'' []))) = 1"
    by code_simp
  have calls: "first_tool_calls insisting_env [] = [call_1]"
    by (simp add: first_tool_calls_def insisting_env_def calling_def)
  show ?thesis
    using later_responses_not_inspected [of insisting_env "''100 usd to eur''" "[]"] n calls
      again
    by simp
qed

text \<open>
  C8 as stated fails for a first response with two calls: from the first follow-up query
  on, the run goes query, print of its answer, and then the execution of the second call
  of the first response with its own query and print.
\<close>

theorem execution_after_followup_counterexample:
  "map event_kind (from_followup (events (snd (main_openai two_calls_env ''100 usd to eur''
     [user_turn ''100 usd to eur''])))) = [Query, Print, Exec, Http, Query, Print] \<and>
   exec_count (from_followup (events (snd (main_openai two_calls_env ''100 usd to eur''
     [user_turn ''100 usd to eur''])))) = 1"
  by code_simp

text \<open>
  The Vertex variant does not read the function calls of a later response either, but it
  reads its text (line 451), which the SDK computes from the parts: a later response that
  holds a function call makes \<^verbatim>\<open>main\<close> end with the exception, after the follow-up message
  was sent.
\<close>

lemma later_call_stops_vertex:
  "fst (main_vertex vertex_insisting_env ''100 usd to eur'') =
     Some (Exn ''ValueError'' ''Cannot get the Candidate text.'') \<and>
   map event_kind (events (snd (main_vertex vertex_insisting_env ''100 usd to eur''))) =
     [Query, Exec, Http, Query]"
  by code_simp

subsection \<open>The two variants\<close>

text \<open>Both variants declare the same function.\<close>

lemma registry_same: "tools = exchange_tool"
  by (simp add: tools_def exchange_tool_def)

lemma vertex_form_object:
  assumes "\<forall>k url params response payload.
             requests_get env k url params = Inr response \<and>
             raise_for_status response = None \<and> response_json response = Inr payload \<longrightarrow>
             (\<exists>entries. payload = JObject entries)"
  shows "\<exists>entries. vertex_form (fetch env k d f t) = JObject entries"
proof (cases "fetch env k d f t")
  case (Inl e)
  then show ?thesis by (simp add: vertex_form_def)
next
  case (Inr payload)
  then obtain response where
    "requests_get env k (''https://api.frankfurter.app/'' @ py_str env d)
       [(''from'', f), (''to'', t)] = Inr response"
    "raise_for_status response = None" "response_json response = Inr payload"
    by (auto simp add: fetch_def split: sum.splits option.splits)
  with assms obtain entries where "payload = JObject entries" by blast
  with Inr show ?thesis by (simp add: vertex_form_def)
qed

lemma one_call_agrees:
  assumes same: "same_call env tc fc"
    and later: "\<forall>k request sent. 0 < k \<longrightarrow>
           (\<exists>final fm cs reply answer.
              chat_create env k request = Inr final \<and> choices final = fm # cs \<and>
              content fm = Some answer \<and>
              send_message env k sent = Inr reply \<and> response_text reply = Inr answer)"
    and bound: "requests_bound env"
    and objects: "\<forall>k url params response payload.
             requests_get env k url params = Inr response \<and>
             raise_for_status response = None \<and> response_json response = Inr payload \<longrightarrow>
             (\<exists>entries. payload = JObject entries)"
    and pos: "0 < model_calls wo"
    and mc: "model_calls wv = model_calls wo"
    and hc: "http_calls wv = http_calls wo"
    and evs: "map step_of (events wo) = map step_of (events wv)"
  shows "\<exists>wo' wv'. resolve_tool_call env m tc wo = (None, wo') \<and>
           resolve_function_call env fc wv = (None, wv') \<and>
           0 < model_calls wo' \<and> model_calls wv' = model_calls wo' \<and>
           http_calls wv' = http_calls wo' \<and>
           map step_of (events wo') = map step_of (events wv')"
proof (cases "tc_name tc = ''get_exchange_rate''")
  case False
  with same have "fc_name fc \<noteq> ''get_exchange_rate''"
    by (simp add: same_call_def)
  with False pos mc hc evs show ?thesis
    by (simp add: resolve_unregistered resolve_unregistered_vertex)
next
  case True
  with same have vname: "fc_name fc = ''get_exchange_rate''"
    by (simp add: same_call_def)
  from same have parsed: "json_loads env (tc_arguments tc) = Inr (JObject (fc_args fc))"
    by (simp add: same_call_def)
  let ?d = "args_get (fc_args fc) ''currency_date'' (JString ''latest'')"
  let ?f = "args_get (fc_args fc) ''currency_from'' JNull"
  let ?t = "args_get (fc_args fc) ''currency_to'' JNull"
  define ro where "ro = openai_form env (fetch_openai env (http_calls wo) ?d ?f ?t)"
  define rv where "rv = vertex_form (fetch env (http_calls wv) ?d ?f ?t)"
  obtain entries where shape: "rv = JObject entries"
    using vertex_form_object [OF objects, of "http_calls wv" ?d ?f ?t] rv_def by auto
  obtain final fm cs reply answer where
    o1: "chat_create env (model_calls wo)
           (followup_request (messages wo @ [Message_turn m, tool_turn (tc_id tc) ro])) =
         Inr final"
    and o2: "choices final = fm # cs" and o3: "content fm = Some answer"
    and v1: "send_message env (model_calls wo) (Function_response ''get_exchange_rate'' rv) =
         Inr reply"
    and v2: "response_text reply = Inr answer"
    using later pos by blast
  from v1 mc have v1': "send_message env (model_calls wv)
      (Function_response ''get_exchange_rate'' rv) = Inr reply"
    by simp
  note so = resolve_tool_call_ok [OF True parsed ro_def o1 o2]
  note sv = resolve_function_call_ok [OF vname rv_def shape v1' v2]
  show ?thesis
    using so sv o3 pos mc hc evs bound by (simp add: issued_def exec_of_def)
qed

lemma loops_agree:
  assumes "list_all2 (same_call env) tcs fcs"
    and "\<forall>k request sent. 0 < k \<longrightarrow>
           (\<exists>final fm cs reply answer.
              chat_create env k request = Inr final \<and> choices final = fm # cs \<and>
              content fm = Some answer \<and>
              send_message env k sent = Inr reply \<and> response_text reply = Inr answer)"
    and "requests_bound env"
    and "\<forall>k url params response payload.
             requests_get env k url params = Inr response \<and>
             raise_for_status response = None \<and> response_json response = Inr payload \<longrightarrow>
             (\<exists>entries. payload = JObject entries)"
    and "0 < model_calls wo"
    and "model_calls wv = model_calls wo"
    and "http_calls wv = http_calls wo"
    and "map step_of (events wo) = map step_of (events wv)"
  shows "fst (tool_loop_openai env m tcs wo) = None \<and>
         fst (tool_loop_vertex env fcs wv) = None \<and>
         map step_of (events (snd (tool_loop_openai env m tcs wo))) =
           map step_of (events (snd (tool_loop_vertex env fcs wv)))"
  using assms
proof (induction tcs fcs arbitrary: wo wv rule: list_all2_induct)
  case Nil
  then show ?case by simp
next
  case (Cons tc tcs fc fcs)
  obtain wo' wv' where
    so: "resolve_tool_call env m tc wo = (None, wo')"
    and sv: "resolve_function_call env fc wv = (None, wv')"
    and inv: "0 < model_calls wo'" "model_calls wv' = model_calls wo'"
      "http_calls wv' = http_calls wo'" "map step_of (events wo') = map step_of (events wv')"
    using one_call_agrees [OF Cons.hyps(1) Cons.prems(1,2,3,4,5,6,7), of m] by blast
  from Cons.IH [OF Cons.prems(1,2,3) inv] so sv show ?case by simp
qed

text \<open>
  C9 (as the code has it). Let the first responses of the two SDKs ask for the same calls
  (the same names in the same order, the OpenAI argument texts parsing to the Vertex
  argument mappings), let a first response without calls carry the same text in both, let
  every later response arrive with the same text in both, let the name \<^verbatim>\<open>requests\<close> be
  bound when the OpenAI cells run, and let every body the service returns with a passing
  status be a JSON object. Then both variants declare the same tool, both runs end without
  an exception, and both go through the same steps in the same order: the model round
  trips, the tool calls with their arguments, the HTTP requests with their URLs and
  parameters, the printed answers. The tool function leaves the same state behind in both
  variants, but hands the outcome on in different forms: \<open>openai_form\<close> is a text,
  \<open>vertex_form\<close> a structured value.
\<close>

theorem variants_agree_up_to_payload_form:
  assumes "chat_create env 0 (first_request ms) = Inr completion"
    and "choices completion = m # others"
    and "send_message env 0 (User_text q) = Inr response"
    and "candidates response = cand # cands"
    and "list_all2 (same_call env) (case tool_calls m of None \<Rightarrow> [] | Some tcs \<Rightarrow> tcs)
           (function_calls cand)"
    and "function_calls cand = [] \<longrightarrow>
           (\<exists>answer. content m = Some answer \<and> response_text response = Inr answer)"
    and "\<forall>k request sent. 0 < k \<longrightarrow>
           (\<exists>final fm cs reply answer.
              chat_create env k request = Inr final \<and> choices final = fm # cs \<and>
              content fm = Some answer \<and>
              send_message env k sent = Inr reply \<and> response_text reply = Inr answer)"
    and "requests_bound env"
    and "\<forall>k url params response payload.
             requests_get env k url params = Inr response \<and>
             raise_for_status response = None \<and> response_json response = Inr payload \<longrightarrow>
             (\<exists>entries. payload = JObject entries)"
  shows "tools = exchange_tool \<and>
         snd (get_exchange_rate_openai env d f t w) = snd (get_exchange_rate_vertex env d f t w) \<and>
         fst (get_exchange_rate_openai env d f t w) =
           Inr (openai_form env (fetch env (http_calls w) d f t)) \<and>
         fst (get_exchange_rate_vertex env d f t w) =
           Inr (vertex_form (fetch env (http_calls w) d f t)) \<and>
         fst (main_openai env q ms) = None \<and>
         fst (main_vertex env q) = None \<and>
         map step_of (events (snd (main_openai env q ms))) =
           map step_of (events (snd (main_vertex env q)))"
proof -
  let ?wo = "\<lparr>messages = ms, events = [Model_query (first_request ms)],
              model_calls = Suc 0, http_calls = 0\<rparr>"
  let ?wv = "\<lparr>messages = [], events = [Send_message (User_text q)],
              model_calls = Suc 0, http_calls = 0\<rparr>"
  have runs: "fst (main_openai env q ms) = None \<and> fst (main_vertex env q) = None \<and>
         map step_of (events (snd (main_openai env q ms))) =
           map step_of (events (snd (main_vertex env q)))"
  proof (cases "function_calls cand")
    case Nil
    with assms(5) have none: "tool_calls m = None \<or> tool_calls m = Some []"
      by (cases "tool_calls m") auto
    from Nil assms(6) obtain answer where
      direct: "content m = Some answer" "response_text response = Inr answer"
      by blast
    from none show ?thesis
      using assms(1,2,3,4) Nil direct
      by (auto simp add: main_openai_def main_vertex_def)
  next
    case (Cons fc fcs)
    with assms(5) obtain tc tcs where tcs: "tool_calls m = Some (tc # tcs)"
      by (cases "tool_calls m") (auto simp add: list_all2_Cons2)
    have mo: "main_openai env q ms = tool_loop_openai env m (tc # tcs) ?wo"
      using assms(1,2) tcs by (simp add: main_openai_def)
    have mv: "main_vertex env q = tool_loop_vertex env (fc # fcs) ?wv"
      using assms(3,4) Cons by (simp add: main_vertex_def)
    have rel: "list_all2 (same_call env) (tc # tcs) (fc # fcs)"
      using assms(5) tcs Cons by simp
    have "fst (tool_loop_openai env m (tc # tcs) ?wo) = None \<and>
         fst (tool_loop_vertex env (fc # fcs) ?wv) = None \<and>
         map step_of (events (snd (tool_loop_openai env m (tc # tcs) ?wo))) =
           map step_of (events (snd (tool_loop_vertex env (fc # fcs) ?wv)))"
      by (rule loops_agree [OF rel assms(7,8,9)]) simp_all
    with mo mv show ?thesis by simp
  qed
  show ?thesis
    using runs assms(8)
    by (simp add: registry_same get_exchange_rate_openai_eq get_exchange_rate_vertex_eq
        fetch_openai_def issued_def)
qed

theorem variants_agree_up_to_payload_form_witness:
  "tools = exchange_tool \<and>
   fst (main_openai two_calls_env ''100 usd to eur'' [user_turn ''100 usd to eur'']) = None \<and>
   fst (main_vertex two_calls_env ''100 usd to eur'') = None \<and>
   map step_of (events (snd (main_openai two_calls_env ''100 usd to eur''
       [user_turn ''100 usd to eur'']))) =
     map step_of (events (snd (main_vertex two_calls_env ''100 usd to eur''))) \<and>
   map step_of (events (snd (main_vertex two_calls_env ''100 usd to eur''))) =
     [Ask,
      Ran (JString ''latest'') (JString ''USD'') (JString ''EUR''),
      Got ''https://api.frankfurter.app/latest''
        [(''from'', JString ''USD''), (''to'', JString ''EUR'')],
      Ask,
      Said ''Final response:'' (Some final_text),
      Ran (JString ''latest'') (JString ''USD'') (JString ''GBP''),
      Got ''https://api.frankfurter.app/latest''
        [(''from'', JString ''USD''), (''to'', JString ''GBP'')],
      Ask,
      Said ''Final response:'' (Some final_text)] \<and>
   fst (get_exchange_rate_openai two_calls_env (JString ''latest'') (JString ''USD'')
       (JString ''EUR'') \<lparr>messages = [], events = [], model_calls = 1, http_calls = 0\<rparr>) =
     Inr rates_text \<and>
   fst (get_exchange_rate_vertex two_calls_env (JString ''latest'') (JString ''USD'')
       (JString ''EUR'') \<lparr>messages = [], events = [], model_calls = 1, http_calls = 0\<rparr>) =
     Inr rates_payload"
proof -
  let ?q = "''100 usd to eur''"
  let ?ms = "[user_turn ''100 usd to eur'']"
  let ?w = "\<lparr>messages = [], events = [], model_calls = 1, http_calls = 0\<rparr>"
  have first: "chat_create two_calls_env 0 (first_request ?ms) =
      Inr \<lparr>choices = [calling [call_1, call_2]]\<rparr>"
    by (simp add: two_calls_env_def scenario_def)
  have choice: "choices \<lparr>choices = [calling [call_1, call_2]]\<rparr> =
      calling [call_1, call_2] # []"
    by simp
  have vfirst: "send_message two_calls_env 0 (User_text ?q) = Inr (vcalling [vcall_1, vcall_2])"
    by (simp add: two_calls_env_def scenario_def)
  have cand: "candidates (vcalling [vcall_1, vcall_2]) =
      \<lparr>parts = [Call_part vcall_1, Call_part vcall_2]\<rparr> # []"
    by (simp add: vcalling_def)
  have fcs: "function_calls \<lparr>parts = [Call_part vcall_1, Call_part vcall_2]\<rparr> =
      [vcall_1, vcall_2]"
    by (simp add: function_calls_def)
  have same: "list_all2 (same_call two_calls_env)
      (case tool_calls (calling [call_1, call_2]) of None \<Rightarrow> [] | Some tcs \<Rightarrow> tcs)
      (function_calls \<lparr>parts = [Call_part vcall_1, Call_part vcall_2]\<rparr>)"
  proof -
    have "list_all2 (same_call two_calls_env) [call_1, call_2] [vcall_1, vcall_2]"
      by (simp add: same_call_def call_1_def call_2_def vcall_1_def vcall_2_def
          two_calls_env_def scenario_def table_loads_def usd_eur_arguments_def
          usd_gbp_arguments_def)
    then show ?thesis
      by (simp add: fcs calling_def)
  qed
  have direct: "function_calls \<lparr>parts = [Call_part vcall_1, Call_part vcall_2]\<rparr> = [] \<longrightarrow>
      (\<exists>answer. content (calling [call_1, call_2]) = Some answer \<and>
         response_text (vcalling [vcall_1, vcall_2]) = Inr answer)"
    by (simp add: fcs)
  have later: "\<forall>k request sent. 0 < k \<longrightarrow>
           (\<exists>final fm cs reply answer.
              chat_create two_calls_env k request = Inr final \<and> choices final = fm # cs \<and>
              content fm = Some answer \<and>
              send_message two_calls_env k sent = Inr reply \<and>
              response_text reply = Inr answer)"
    by (simp add: two_calls_env_def scenario_def final_message_def response_text_def
        candidate_text_def)
  have bound: "requests_bound two_calls_env"
    by (simp add: two_calls_env_def scenario_def)
  have objects: "\<forall>k url params response payload.
             requests_get two_calls_env k url params = Inr response \<and>
             raise_for_status response = None \<and> response_json response = Inr payload \<longrightarrow>
             (\<exists>entries. payload = JObject entries)"
    by (auto simp add: two_calls_env_def scenario_def ok_response_def rates_payload_def)
  have steps: "map step_of (events (snd (main_vertex two_calls_env ''100 usd to eur''))) =
     [Ask,
      Ran (JString ''latest'') (JString ''USD'') (JString ''EUR''),
      Got ''https://api.frankfurter.app/latest''
        [(''from'', JString ''USD''), (''to'', JString ''EUR'')],
      Ask,
      Said ''Final response:'' (Some final_text),
      Ran (JString ''latest'') (JString ''USD'') (JString ''GBP''),
      Got ''https://api.frankfurter.app/latest''
        [(''from'', JString ''USD''), (''to'', JString ''GBP'')],
      Ask,
      Said ''Final response:'' (Some final_text)]"
    by code_simp
  have forms: "openai_form two_calls_env
        (fetch two_calls_env 0 (JString ''latest'') (JString ''USD'') (JString ''EUR'')) =
      rates_text"
    "vertex_form (fetch two_calls_env 0 (JString ''latest'') (JString ''USD'')
        (JString ''EUR'')) = rates_payload"
    by code_simp+
  show ?thesis
    using variants_agree_up_to_payload_form [OF first choice vfirst cand same direct later
        bound objects, of "JString ''latest''" "JString ''USD''" "JString ''EUR''" ?w]
      steps forms
    by simp
qed

text \<open>
  C9 as stated fails: with the service down, the tool turn of the OpenAI variant carries
  the plain text \<^verbatim>\<open>Error fetching exchange rate: connection refused\<close>, the function response
  of the Vertex variant carries the dictionary \<^verbatim>\<open>{"error": "connection refused"}\<close>, and
  the first is not the serialisation of the second.
\<close>

theorem failure_payload_forms_differ_counterexample:
  "messages (snd (main_openai service_down_env ''100 usd to eur''
       [user_turn ''100 usd to eur''])) ! 2 =
     tool_turn ''call_1'' ''Error fetching exchange rate: connection refused'' \<and>
   events (snd (main_vertex service_down_env ''100 usd to eur'')) ! 3 =
     Send_message (Function_response ''get_exchange_rate''
       (JObject [(''error'', JString ''connection refused'')])) \<and>
   json_dumps service_down_env (JObject [(''error'', JString ''connection refused'')]) \<noteq>
     ''Error fetching exchange rate: connection refused''"
  by code_simp

text \<open>
  Where the hypothesis on the bodies matters: when the service answers with a list, the
  OpenAI variant hands its serialisation on and ends normally, and the Vertex variant
  raises while building the function response, before any follow-up message.
\<close>

lemma list_payload_stops_vertex:
  "fst (main_openai list_body_env ''100 usd to eur'' [user_turn ''100 usd to eur'']) = None \<and>
   fst (main_vertex list_body_env ''100 usd to eur'') =
     Some (Exn ''AttributeError''
       (py_quote ''list'' @ '' object has no attribute '' @ py_quote ''items'')) \<and>
   map event_kind (events (snd (main_vertex list_body_env ''100 usd to eur''))) =
     [Query, Exec, Http]"
  by code_simp

end
